theory Spec2Isabelle
  imports Main "HOL-Library.Char_ord" "HOL-Library.List_Lexorder"
begin

section \<open>The runtime\<close>

text \<open>
  Two tables of the JavaScript runtime are not in the repository: the Unicode case
  mappings, and the conversion between decimal text and binary64 numbers. The model has the
  part of each that is fixed and small (the ASCII letters and the white space; the decimals
  that binary64 keeps exactly) and takes the rest as a parameter, as it takes the hash
  function:

  \<^item> \<open>upperRun rt pre run post\<close> and \<open>lowerRun rt pre run post\<close> are what
    \<open>toUpperCase\<close> and \<open>toLowerCase\<close> put in the place of \<open>run\<close>, a maximal run of text
    beyond ASCII, other than white space, that stands between \<open>pre\<close> and \<open>post\<close> in the
    string;

  \<^item> for a numeral \<open>t\<close> (digits, which \<open>parseInt\<close> has read, or digits with a decimal
    point, which \<open>parseFloat\<close> has read) and the number \<open>v\<close> that was read from it,
    \<open>finiteNum rt t\<close> is \<open>Number.isFinite(v)\<close>, \<open>showNum rt t\<close> is \<open>String(v)\<close>,
    \<open>truthyNum rt t\<close> is the truth value of \<open>v\<close> in a condition, and \<open>localeNum rt t\<close> is
    \<open>v.toLocaleString()\<close>;

  \<^item> for a number \<open>t\<close> of a JSON text, \<open>jsonNum rt t\<close> is \<open>String(JSON.parse(t))\<close>.

  Every theorem below that mentions \<open>rt\<close> holds for every runtime.
\<close>

record runtime =
  upperRun :: "string \<Rightarrow> string \<Rightarrow> string \<Rightarrow> string"
  lowerRun :: "string \<Rightarrow> string \<Rightarrow> string \<Rightarrow> string"
  finiteNum :: "string \<Rightarrow> bool"
  showNum :: "string \<Rightarrow> string"
  truthyNum :: "string \<Rightarrow> bool"
  localeNum :: "string \<Rightarrow> string"
  jsonNum :: "string \<Rightarrow> string"

section \<open>JavaScript strings\<close>

text \<open>
  A JavaScript string is modelled as a \<^typ>\<open>string\<close> of bytes, the UTF-8 encoding of its
  text (a page is decoded from UTF-8 by \<open>res.text()\<close>). Every literal that the program
  searches for is ASCII, so a scan over the bytes finds what a scan over the characters
  finds. The regular expressions of the program have no \<open>u\<close> flag: \<open>\d\<close> is \<open>0-9\<close>, \<open>\w\<close>
  is \<open>A-Za-z0-9_\<close>, and under the \<open>i\<close> flag a letter of a pattern matches its two ASCII
  forms only (a character beyond ASCII is never canonicalized to an ASCII one).
\<close>

definition isDigit :: "char \<Rightarrow> bool" where
  "isDigit c = (c \<in> set ''0123456789'')"

definition isLower :: "char \<Rightarrow> bool" where
  "isLower c = (c \<in> set ''abcdefghijklmnopqrstuvwxyz'')"

definition isUpper :: "char \<Rightarrow> bool" where
  "isUpper c = (c \<in> set ''ABCDEFGHIJKLMNOPQRSTUVWXYZ'')"

definition isWordChar :: "char \<Rightarrow> bool" where
  "isWordChar c = (isLower c \<or> isUpper c \<or> isDigit c \<or> c = CHR ''_'')"

text \<open>A byte below 128 is an ASCII character; every byte of a character beyond ASCII is above.\<close>

definition isAscii :: "char \<Rightarrow> bool" where
  "isAscii c = (c < CHR 0x80)"

text \<open>The case mappings of the ASCII characters.\<close>

definition upperChar :: "char \<Rightarrow> char" where
  "upperChar c =
     (case map_of (zip ''abcdefghijklmnopqrstuvwxyz'' ''ABCDEFGHIJKLMNOPQRSTUVWXYZ'') c of
        Some u \<Rightarrow> u | None \<Rightarrow> c)"

definition lowerChar :: "char \<Rightarrow> char" where
  "lowerChar c =
     (case map_of (zip ''ABCDEFGHIJKLMNOPQRSTUVWXYZ'' ''abcdefghijklmnopqrstuvwxyz'') c of
        Some l \<Rightarrow> l | None \<Rightarrow> c)"

text \<open>
  White space, for \<open>\s\<close> and for \<open>trim\<close>: the characters U+0009 to U+000D, U+0020, U+00A0,
  U+1680, U+2000 to U+200A, U+2028, U+2029, U+202F, U+205F, U+3000 and U+FEFF (the
  ECMAScript classes \<open>WhiteSpace\<close> and \<open>LineTerminator\<close>), each as its UTF-8 bytes.
\<close>

definition whiteSpace :: "string list" where
  "whiteSpace =
     [[CHR 0x09], [CHR 0x0A], [CHR 0x0B], [CHR 0x0C], [CHR 0x0D], [CHR 0x20],
      [CHR 0xC2, CHR 0xA0],
      [CHR 0xE1, CHR 0x9A, CHR 0x80],
      [CHR 0xE2, CHR 0x80, CHR 0x80], [CHR 0xE2, CHR 0x80, CHR 0x81],
      [CHR 0xE2, CHR 0x80, CHR 0x82], [CHR 0xE2, CHR 0x80, CHR 0x83],
      [CHR 0xE2, CHR 0x80, CHR 0x84], [CHR 0xE2, CHR 0x80, CHR 0x85],
      [CHR 0xE2, CHR 0x80, CHR 0x86], [CHR 0xE2, CHR 0x80, CHR 0x87],
      [CHR 0xE2, CHR 0x80, CHR 0x88], [CHR 0xE2, CHR 0x80, CHR 0x89],
      [CHR 0xE2, CHR 0x80, CHR 0x8A],
      [CHR 0xE2, CHR 0x80, CHR 0xA8], [CHR 0xE2, CHR 0x80, CHR 0xA9],
      [CHR 0xE2, CHR 0x80, CHR 0xAF],
      [CHR 0xE2, CHR 0x81, CHR 0x9F],
      [CHR 0xE3, CHR 0x80, CHR 0x80],
      [CHR 0xEF, CHR 0xBB, CHR 0xBF]]"

fun hasPrefix :: "string \<Rightarrow> string \<Rightarrow> bool" where
  "hasPrefix [] s = True"
| "hasPrefix (p # ps) [] = False"
| "hasPrefix (p # ps) (c # s) = (if p = c then hasPrefix ps s else False)"

text \<open>
  \<open>spaceAt tbl s\<close> is the number of bytes of the white-space character that \<open>s\<close> starts
  with, and 0 when it starts with none. With the reversed table it reads a reversed string.
\<close>

definition spaceAt :: "string list \<Rightarrow> string \<Rightarrow> nat" where
  "spaceAt tbl s = (case find (\<lambda>w. hasPrefix w s) tbl of None \<Rightarrow> 0 | Some w \<Rightarrow> length w)"

text \<open>
  The string without the white space it starts with. The counter \<open>k\<close> is the number of
  bytes still to be dropped from the white-space character that was found; a call starts
  with \<open>k = 0\<close>.
\<close>

fun dropSpaces :: "string list \<Rightarrow> nat \<Rightarrow> string \<Rightarrow> string" where
  "dropSpaces tbl k [] = []"
| "dropSpaces tbl k (c # s) =
     (if 0 < k then dropSpaces tbl (k - 1) s
      else if 0 < spaceAt tbl (c # s) then dropSpaces tbl (spaceAt tbl (c # s) - 1) s
      else c # s)"

text \<open>\<open>s.trim()\<close>.\<close>

definition trim :: "string \<Rightarrow> string" where
  "trim s = rev (dropSpaces (map rev whiteSpace) 0 (rev (dropSpaces whiteSpace 0 s)))"

text \<open>
  \<open>s.toUpperCase()\<close> and \<open>s.toLowerCase()\<close>. An ASCII character is mapped by the
  table, whatever stands around it; a white-space character beyond ASCII has no case
  mapping and stays; and a maximal run of other text beyond ASCII is mapped by the runtime,
  which is given the text before and after the run (the lower-case form of a capital sigma
  depends on them). \<open>runLength s\<close> is the number of bytes of the run that \<open>s\<close> starts
  with, \<open>pre\<close> is the part of the string already passed, and \<open>k\<close> is the number of bytes
  still covered by the piece that was mapped last; a call starts with \<open>pre = []\<close> and
  \<open>k = 0\<close>.
\<close>

fun runLength :: "string \<Rightarrow> nat" where
  "runLength [] = 0"
| "runLength (c # s) =
     (if isAscii c then 0 else if 0 < spaceAt whiteSpace (c # s) then 0 else Suc (runLength s))"

fun caseMap ::
  "(char \<Rightarrow> char) \<Rightarrow> (string \<Rightarrow> string \<Rightarrow> string \<Rightarrow> string) \<Rightarrow> string \<Rightarrow> nat \<Rightarrow> string
     \<Rightarrow> string" where
  "caseMap tbl run pre k [] = []"
| "caseMap tbl run pre k (c # s) =
     (if 0 < k then caseMap tbl run (pre @ [c]) (k - 1) s
      else if isAscii c then tbl c # caseMap tbl run (pre @ [c]) 0 s
      else if 0 < spaceAt whiteSpace (c # s) then
        take (spaceAt whiteSpace (c # s)) (c # s)
        @ caseMap tbl run (pre @ [c]) (spaceAt whiteSpace (c # s) - 1) s
      else
        run pre (take (runLength (c # s)) (c # s)) (drop (runLength (c # s)) (c # s))
        @ caseMap tbl run (pre @ [c]) (runLength (c # s) - 1) s)"

definition toUpperCase :: "runtime \<Rightarrow> string \<Rightarrow> string" where
  "toUpperCase rt s = caseMap upperChar (upperRun rt) [] 0 s"

definition toLowerCase :: "runtime \<Rightarrow> string \<Rightarrow> string" where
  "toLowerCase rt s = caseMap lowerChar (lowerRun rt) [] 0 s"

text \<open>\<open>String(x).padStart(2, "0")\<close>.\<close>

definition padStart2 :: "string \<Rightarrow> string" where
  "padStart2 s = replicate (2 - length s) (CHR ''0'') @ s"

section \<open>Date normalization (dwrParser.js and coParser.js, \<open>normalizeDate\<close>)\<close>

text \<open>
  \<open>s.match(/(\d{1,2})\/(\d{1,2})\/(\d{4})/)\<close>. \<open>tryDate a b s\<close> is the attempt anchored at
  the head of \<open>s\<close> with a month of \<open>a\<close> digits and a day of \<open>b\<close> digits; the groups are
  greedy, so the backtracking matcher tries the lengths in the order (2,2), (2,1), (1,2),
  (1,1) before it moves the start one character to the right.
\<close>

definition tryDate :: "nat \<Rightarrow> nat \<Rightarrow> string \<Rightarrow> (string \<times> string \<times> string) option" where
  "tryDate a b s =
     (let m = take a s; r1 = drop a s;
          d = take b (drop 1 r1); r2 = drop b (drop 1 r1);
          y = take 4 (drop 1 r2)
      in if length m = a \<and> list_all isDigit m \<and> take 1 r1 = ''/''
            \<and> length d = b \<and> list_all isDigit d \<and> take 1 r2 = ''/''
            \<and> length y = 4 \<and> list_all isDigit y
         then Some (m, d, y) else None)"

definition dateAt :: "string \<Rightarrow> (string \<times> string \<times> string) option" where
  "dateAt s =
     (case tryDate 2 2 s of Some r \<Rightarrow> Some r | None \<Rightarrow>
      (case tryDate 2 1 s of Some r \<Rightarrow> Some r | None \<Rightarrow>
       (case tryDate 1 2 s of Some r \<Rightarrow> Some r | None \<Rightarrow> tryDate 1 1 s)))"

fun dateMatch :: "string \<Rightarrow> (string \<times> string \<times> string) option" where
  "dateMatch [] = dateAt []"
| "dateMatch (c # s) = (case dateAt (c # s) of Some r \<Rightarrow> Some r | None \<Rightarrow> dateMatch s)"

definition normalizeDate :: "string \<Rightarrow> string" where
  "normalizeDate s =
     (case dateMatch s of
        None \<Rightarrow> ''''
      | Some (m, d, y) \<Rightarrow> y @ ''-'' @ padStart2 m @ ''-'' @ padStart2 d)"

text \<open>coParser.js has its own copy, which first applies \<open>String(s || "")\<close>.\<close>

definition coNormalizeDate :: "string \<Rightarrow> string" where
  "coNormalizeDate s = normalizeDate (if s = [] then '''' else s)"


section \<open>Markup stripping (dwrParser.js, \<open>stripTags\<close>, and the row and cell scans)\<close>

text \<open>
  The patterns \<open>/<tr[\s\S]*?<\/tr>/gi\<close>, \<open>/<td[\s\S]*?<\/td>/gi\<close>, \<open>/<script[\s\S]*?<\/script>/gi\<close>
  and \<open>/<style[\s\S]*?<\/style>/gi\<close> all have the form: an opening literal, a lazy run of
  any characters, a closing literal, matched without regard to case. \<open>ciPrefix p s\<close> holds
  when \<open>s\<close> starts with the (lower-case) literal \<open>p\<close> in any ASCII casing.
\<close>

definition ciPrefix :: "string \<Rightarrow> string \<Rightarrow> bool" where
  "ciPrefix p s = (length p \<le> length s \<and> map lowerChar (take (length p) s) = p)"

text \<open>
  \<open>closeAt cl s\<close>: the lazy run followed by the closing literal, anchored at the head of
  \<open>s\<close>: the shortest prefix of \<open>s\<close> that ends with \<open>cl\<close>, and what follows it.
\<close>

fun closeAt :: "string \<Rightarrow> string \<Rightarrow> (string \<times> string) option" where
  "closeAt cl [] = (if cl = [] then Some ([], []) else None)"
| "closeAt cl (c # s) =
     (if ciPrefix cl (c # s) then Some (take (length cl) (c # s), drop (length cl) (c # s))
      else (case closeAt cl s of None \<Rightarrow> None | Some (m, r) \<Rightarrow> Some (c # m, r)))"

text \<open>
  \<open>str.match(/op[\s\S]*?cl/gi)\<close>: all matches from left to right, each search resuming
  after the end of the previous match. The counter \<open>k\<close> is the number of characters of the
  text still covered by the previous match; a scan starts with \<open>k = 0\<close>. A \<open>null\<close> result
  (no match) is the empty list.
\<close>

fun blocks :: "string \<Rightarrow> string \<Rightarrow> nat \<Rightarrow> string \<Rightarrow> string list" where
  "blocks op cl k [] = []"
| "blocks op cl k (c # s) =
     (if 0 < k then blocks op cl (k - 1) s
      else if ciPrefix op (c # s) then
        (case closeAt cl (drop (length op) (c # s)) of
           Some (m, r) \<Rightarrow>
             (take (length op) (c # s) @ m) # blocks op cl (length op + length m - 1) s
         | None \<Rightarrow> blocks op cl 0 s)
      else blocks op cl 0 s)"

text \<open>\<open>str.replace(/op[\s\S]*?cl/gi, "")\<close>, with the same counter.\<close>

fun removeBlocks :: "string \<Rightarrow> string \<Rightarrow> nat \<Rightarrow> string \<Rightarrow> string" where
  "removeBlocks op cl k [] = []"
| "removeBlocks op cl k (c # s) =
     (if 0 < k then removeBlocks op cl (k - 1) s
      else if ciPrefix op (c # s) then
        (case closeAt cl (drop (length op) (c # s)) of
           Some (m, r) \<Rightarrow> removeBlocks op cl (length op + length m - 1) s
         | None \<Rightarrow> c # removeBlocks op cl 0 s)
      else c # removeBlocks op cl 0 s)"

text \<open>
  \<open>str.replace(/<[^>]+>/g, " ")\<close>: a \<open><\<close>, at least one character other than \<open>>\<close>, and
  the first \<open>>\<close> after them. \<open>tagLength s\<close> is the number of characters after the \<open><\<close>
  that such a match covers.
\<close>

definition tagLength :: "string \<Rightarrow> nat option" where
  "tagLength s =
     (let inner = takeWhile (\<lambda>x. x \<noteq> CHR ''>'') s
      in if inner \<noteq> [] \<and> dropWhile (\<lambda>x. x \<noteq> CHR ''>'') s \<noteq> []
         then Some (length inner + 1) else None)"

fun replaceTags :: "nat \<Rightarrow> string \<Rightarrow> string" where
  "replaceTags k [] = []"
| "replaceTags k (c # s) =
     (if 0 < k then replaceTags (k - 1) s
      else if c = CHR ''<'' then
        (case tagLength s of
           Some n \<Rightarrow> CHR '' '' # replaceTags n s
         | None \<Rightarrow> c # replaceTags 0 s)
      else c # replaceTags 0 s)"

text \<open>
  \<open>str.replace(/\s+/g, " ")\<close>: every maximal run of white-space characters becomes one
  space. \<open>k\<close> is the number of bytes still covered by the white-space character that was
  found, and \<open>run\<close> tells whether the space for the current run has been written; a scan
  starts with \<open>k = 0\<close> and \<open>run = False\<close>.
\<close>

fun collapseSpaces :: "nat \<Rightarrow> bool \<Rightarrow> string \<Rightarrow> string" where
  "collapseSpaces k run [] = []"
| "collapseSpaces k run (c # s) =
     (if 0 < k then collapseSpaces (k - 1) run s
      else if 0 < spaceAt whiteSpace (c # s) then
        (if run then collapseSpaces (spaceAt whiteSpace (c # s) - 1) True s
         else CHR '' '' # collapseSpaces (spaceAt whiteSpace (c # s) - 1) True s)
      else c # collapseSpaces 0 False s)"

definition stripTags :: "string \<Rightarrow> string" where
  "stripTags html =
     trim (collapseSpaces 0 False (replaceTags 0
       (removeBlocks ''<style'' ''</style>'' 0
         (removeBlocks ''<script'' ''</script>'' 0 html))))"

section \<open>Numbers\<close>

text \<open>
  A number that the program reads from a cell is modelled by the decimal that the cell
  holds: a quantity, which \<open>parseInt\<close> reads from digits, is a natural number, and an
  average length, which \<open>parseFloat\<close> reads, is a \<open>decimal\<close>, the integer part and the
  fraction digits without trailing zeros. The JavaScript \<open>Number\<close> is the binary64 that the
  runtime reads from this decimal. \<open>NaN\<close> is \<open>None\<close>.
\<close>

type_synonym decimal = "nat \<times> string"

definition digitVal :: "char \<Rightarrow> nat" where
  "digitVal c =
     (case map_of (zip ''0123456789'' [0, 1, 2, 3, 4, 5, 6, 7, 8, 9]) c of
        Some v \<Rightarrow> v | None \<Rightarrow> 0)"

definition digitChar :: "nat \<Rightarrow> char" where
  "digitChar d = ''0123456789'' ! (d mod 10)"

definition parseDigits :: "string \<Rightarrow> nat" where
  "parseDigits s = foldl (\<lambda>n c. 10 * n + digitVal c) 0 s"

text \<open>
  \<open>parseInt(s, 10)\<close> for a string of digits: the integer that the digits denote; the empty
  string gives \<open>NaN\<close>. The Number that JavaScript returns is the binary64 read from this
  integer; \<open>isFinite\<close>, \<open>showNumber\<close> and \<open>truthy\<close> below tell how it is tested and
  written.
\<close>

definition parseInt10 :: "string \<Rightarrow> nat option" where
  "parseInt10 s =
     (let ds = takeWhile isDigit s in if ds = [] then None else Some (parseDigits ds))"

text \<open>
  \<open>parseFloat(s)\<close> for a string of digits and decimal points: the decimal that the longest
  prefix of the form digits, optionally a point and digits, with at least one digit,
  denotes. Again the Number is the binary64 read from this decimal.
\<close>

definition parseFloat :: "string \<Rightarrow> decimal option" where
  "parseFloat s =
     (let ip = takeWhile isDigit s;
          r = dropWhile isDigit s;
          fp = (case r of [] \<Rightarrow> [] | c # t \<Rightarrow> if c = CHR ''.'' then takeWhile isDigit t else [])
      in if ip = [] \<and> fp = [] then None
         else Some (parseDigits ip, rev (dropWhile (\<lambda>c. c = CHR ''0'') (rev fp))))"

text \<open>
  The digits of a natural number, and a decimal written without exponent, with a point
  where it has a fraction.
\<close>

fun digitsOf :: "nat \<Rightarrow> string" where
  "digitsOf n = (if n < 10 then [digitChar n] else digitsOf (n div 10) @ [digitChar n])"

declare digitsOf.simps [simp del]

definition decimalText :: "decimal \<Rightarrow> string" where
  "decimalText x = digitsOf (fst x) @ (if snd x = [] then [] else ''.'' @ snd x)"

text \<open>
  Binary64 keeps a decimal of at most 15 digits that is zero or at least 0.000001 as it is:
  two such decimals are different Numbers, and the Number is converted to a string as
  \<open>decimalText\<close> writes the decimal. \<open>inRange\<close> holds of these decimals. Beyond them binary64
  rounds (the digits of \<open>2^53 + 1\<close> are read as \<open>2^53\<close>), overflows (more than 308 digits
  are read as \<open>Infinity\<close>), and is converted to a string with an exponent (from \<open>1e21\<close> up,
  and below 0.000001, as in \<open>1e-7\<close>). There the model asks the runtime, with the
  \<open>numeralText\<close> as text: the digits alone for a number that \<open>parseInt\<close> has read
  (\<open>integral\<close>), the digits with a point for one that \<open>parseFloat\<close> has read. Beyond the
  range two different decimals can be the same Number.
\<close>

definition inRange :: "decimal \<Rightarrow> bool" where
  "inRange x =
     (length (digitsOf (fst x)) + length (snd x) \<le> 15
      \<and> (0 < fst x \<or> length (takeWhile (\<lambda>c. c = CHR ''0'') (snd x)) \<le> 5))"

definition numeralText :: "bool \<Rightarrow> decimal \<Rightarrow> string" where
  "numeralText integral x =
     (if integral then digitsOf (fst x) else digitsOf (fst x) @ ''.'' @ snd x)"

text \<open>\<open>Number.isFinite(v)\<close>, \<open>String(v)\<close> (also in a template literal) and the truth value of \<open>v\<close>.\<close>

definition isFinite :: "runtime \<Rightarrow> bool \<Rightarrow> decimal \<Rightarrow> bool" where
  "isFinite rt integral x =
     (if inRange x then True else finiteNum rt (numeralText integral x))"

definition showNumber :: "runtime \<Rightarrow> bool \<Rightarrow> decimal \<Rightarrow> string" where
  "showNumber rt integral x =
     (if inRange x then decimalText x else showNum rt (numeralText integral x))"

definition truthy :: "runtime \<Rightarrow> bool \<Rightarrow> decimal \<Rightarrow> bool" where
  "truthy rt integral x =
     (if inRange x then x \<noteq> (0, []) else truthyNum rt (numeralText integral x))"

text \<open>
  \<open>Number(n).toLocaleString()\<close> for an integer of at most 15 digits, in the \<open>en-US\<close> locale
  (the default of a Node.js process started without locale settings): groups of three
  digits, separated by commas.
\<close>

fun group3 :: "string \<Rightarrow> string" where
  "group3 (a # b # c # d # r) = a # b # c # CHR '','' # group3 (d # r)"
| "group3 s = s"

definition toLocaleString :: "runtime \<Rightarrow> nat \<Rightarrow> string" where
  "toLocaleString rt n =
     (if inRange (n, []) then rev (group3 (rev (digitsOf n)))
      else localeNum rt (numeralText True (n, [])))"

section \<open>Stocking events\<close>

record event =
  event_id :: string
  water_name :: string
  county :: string
  species :: string
  quantity :: "nat option"
  avg_length :: "decimal option"
  date_stocked :: string
  first_seen_at :: string

text \<open>
  The six fields that the identity of an event is derived from; a quantity as a decimal;
  the decimals in canonical form (the fraction is a string of digits that does not end
  with a zero), which are the ones that stand for a number; and the optional numbers that
  are absent or a canonical decimal of the exact range.
\<close>

definition sixFields ::
  "event \<Rightarrow> string \<times> string \<times> string \<times> nat option \<times> decimal option \<times> string" where
  "sixFields e =
     (water_name e, county e, species e, quantity e, avg_length e, date_stocked e)"

definition whole :: "nat option \<Rightarrow> decimal option" where
  "whole q = (case q of None \<Rightarrow> None | Some n \<Rightarrow> Some (n, []))"

definition canonical :: "decimal \<Rightarrow> bool" where
  "canonical x = (list_all isDigit (snd x) \<and> (snd x = [] \<or> last (snd x) \<noteq> CHR ''0''))"

definition exact :: "decimal option \<Rightarrow> bool" where
  "exact l = (case l of None \<Rightarrow> True | Some x \<Rightarrow> inRange x \<and> canonical x)"

text \<open>
  Both parsers end with the same filter: an event whose id was seen earlier in the batch
  is dropped. \<open>seen\<close> holds the ids met so far.
\<close>

fun dedupById :: "string list \<Rightarrow> event list \<Rightarrow> event list" where
  "dedupById seen [] = []"
| "dedupById seen (e # es) =
     (if event_id e \<in> set seen then dedupById seen es
      else e # dedupById (event_id e # seen) es)"

section \<open>The tabular extractor (dwrParser.js, \<open>parseDwrFishStockingHtml\<close>)\<close>

text \<open>
  \<open>crypto.createHash("sha1")\<close> is a library function: the parsers take it as the parameter
  \<open>sha1\<close>. \<open>new Date().toISOString()\<close> reads the clock once for every event that is pushed:
  \<open>clock k\<close> is the reading for the \<open>k\<close>-th event of a call.
\<close>

text \<open>\<open>Number.isFinite(v) ? v : null\<close>, for a quantity and for a length.\<close>

definition finiteQuantity :: "runtime \<Rightarrow> nat option \<Rightarrow> nat option" where
  "finiteQuantity rt q =
     (case q of None \<Rightarrow> None | Some n \<Rightarrow> if isFinite rt True (n, []) then Some n else None)"

definition finiteLength :: "runtime \<Rightarrow> decimal option \<Rightarrow> decimal option" where
  "finiteLength rt l =
     (case l of None \<Rightarrow> None | Some x \<Rightarrow> if isFinite rt False x then Some x else None)"

definition dwrFingerprint ::
  "runtime \<Rightarrow> string \<Rightarrow> string \<Rightarrow> string \<Rightarrow> nat option \<Rightarrow> decimal option \<Rightarrow> string
     \<Rightarrow> string" where
  "dwrFingerprint rt water cnty spec qty len date =
     water @ ''|'' @ cnty @ ''|'' @ spec @ ''|''
     @ (case qty of Some q \<Rightarrow> showNumber rt True (q, []) | None \<Rightarrow> '''') @ ''|''
     @ (case len of Some l \<Rightarrow> showNumber rt False l | None \<Rightarrow> '''') @ ''|''
     @ date"

text \<open>The body of the loop for one row; \<open>None\<close> is \<open>continue\<close>.\<close>

definition dwrRow ::
  "(string \<Rightarrow> string) \<Rightarrow> runtime \<Rightarrow> string \<Rightarrow> string \<Rightarrow> event option" where
  "dwrRow sha1 rt now row =
     (let tds = blocks ''<td'' ''</td>'' 0 row in
      if length tds < 6 then None
      else
        let cells = map stripTags tds;
            water = cells ! 0;
            cnty = cells ! 1;
            spec = cells ! 2;
            qty = finiteQuantity rt (parseInt10 (filter isDigit (cells ! 3)));
            len = finiteLength rt
                    (parseFloat (filter (\<lambda>c. isDigit c \<or> c = CHR ''.'') (cells ! 4)));
            date = normalizeDate (cells ! 5)
        in if water = [] \<or> cnty = [] \<or> spec = [] \<or> date = [] then None
           else Some \<lparr> event_id = sha1 (dwrFingerprint rt water cnty spec qty len date),
                       water_name = water, county = cnty, species = spec,
                       quantity = qty, avg_length = len,
                       date_stocked = date, first_seen_at = now \<rparr>)"

fun dwrRows ::
  "(string \<Rightarrow> string) \<Rightarrow> runtime \<Rightarrow> (nat \<Rightarrow> string) \<Rightarrow> nat \<Rightarrow> string list \<Rightarrow> event list" where
  "dwrRows sha1 rt clock k [] = []"
| "dwrRows sha1 rt clock k (row # rows) =
     (case dwrRow sha1 rt (clock k) row of
        None \<Rightarrow> dwrRows sha1 rt clock k rows
      | Some e \<Rightarrow> e # dwrRows sha1 rt clock (Suc k) rows)"

definition parseDwrFishStockingHtml ::
  "(string \<Rightarrow> string) \<Rightarrow> runtime \<Rightarrow> (nat \<Rightarrow> string) \<Rightarrow> string \<Rightarrow> event list" where
  "parseDwrFishStockingHtml sha1 rt clock html =
     dedupById [] (dwrRows sha1 rt clock 0 (blocks ''<tr'' ''</tr>'' 0 html))"

section \<open>The free-text extractor (coParser.js, \<open>fetchColoradoEvents\<close>)\<close>

text \<open>
  \<open>isDate\<close> tests \<open>/\b\d{1,2}\/\d{1,2}\/\d{4}\b/\<close>. The match starts and ends with a digit, so
  the first \<open>\b\<close> asks that no word character stands before it and the second that none
  follows it. \<open>dateTestAt a b s\<close> is the attempt at the head of \<open>s\<close>, and the flag of
  \<open>isDateFrom\<close> tells whether the character before the head is a word character.
\<close>

definition dateTestAt :: "nat \<Rightarrow> nat \<Rightarrow> string \<Rightarrow> bool" where
  "dateTestAt a b s =
     (case tryDate a b s of
        None \<Rightarrow> False
      | Some r \<Rightarrow> (case drop (a + b + 6) s of [] \<Rightarrow> True | c # t \<Rightarrow> \<not> isWordChar c))"

fun isDateFrom :: "bool \<Rightarrow> string \<Rightarrow> bool" where
  "isDateFrom w [] = False"
| "isDateFrom w (c # s) =
     ((\<not> w \<and> (dateTestAt 2 2 (c # s) \<or> dateTestAt 2 1 (c # s)
              \<or> dateTestAt 1 2 (c # s) \<or> dateTestAt 1 1 (c # s)))
      \<or> isDateFrom (isWordChar c) s)"

definition isDate :: "string \<Rightarrow> bool" where
  "isDate x = isDateFrom False x"

definition bad :: "string list" where
  "bad = [''trout stocking report'', ''body of water'', ''region'', ''report date'',
          ''link'', ''atlas'', ''atlas+'', ''view stocking report archive'']"

definition clean :: "string \<Rightarrow> string" where
  "clean s = trim s"

definition isBad :: "runtime \<Rightarrow> string \<Rightarrow> bool" where
  "isBad rt s = (toLowerCase rt (clean s) \<in> set bad)"

definition coFingerprint :: "string \<Rightarrow> string \<Rightarrow> string \<Rightarrow> string \<Rightarrow> string" where
  "coFingerprint water cnty spec date =
     ''CO|'' @ water @ ''|'' @ cnty @ ''|'' @ spec @ ''|'' @ date"

text \<open>The body of the loop for the lines at \<open>i\<close>, \<open>i + 1\<close>, \<open>i + 2\<close>; \<open>None\<close> is \<open>continue\<close>.\<close>

definition coTriple ::
  "(string \<Rightarrow> string) \<Rightarrow> runtime \<Rightarrow> string \<Rightarrow> string \<Rightarrow> string \<Rightarrow> string \<Rightarrow> event option" where
  "coTriple sha1 rt now l0 l1 l2 =
     (let a = clean l0; b = clean l1; c = clean l2 in
      if a = [] \<or> b = [] \<or> c = [] then None
      else if isBad rt a \<or> isBad rt b \<or> isBad rt c then None
      else if isDate a \<or> isDate b \<or> \<not> isDate c then None
      else
        let date = coNormalizeDate c in
        if date = [] then None
        else
          let cnty = toUpperCase rt b; spec = ''TROUT'' in
          Some \<lparr> event_id = sha1 (coFingerprint a cnty spec date),
                 water_name = a, county = cnty, species = spec,
                 quantity = None, avg_length = None,
                 date_stocked = date, first_seen_at = now \<rparr>)"

text \<open>
  \<open>for (let i = 0; i < lines.length - 2; i++)\<close>, with \<open>i += 2\<close> at the end of an accepting
  iteration. \<open>k\<close> counts the events pushed so far.
\<close>

function coLoop ::
  "(string \<Rightarrow> string) \<Rightarrow> runtime \<Rightarrow> (nat \<Rightarrow> string) \<Rightarrow> string list \<Rightarrow> nat \<Rightarrow> nat
     \<Rightarrow> event list" where
  "coLoop sha1 rt clock lines k i =
     (if i + 2 < length lines then
        (case coTriple sha1 rt (clock k) (lines ! i) (lines ! (i + 1)) (lines ! (i + 2)) of
           None \<Rightarrow> coLoop sha1 rt clock lines k (i + 1)
         | Some e \<Rightarrow> e # coLoop sha1 rt clock lines (Suc k) (i + 3))
      else [])"
  by pat_completeness auto
termination
  by (relation "measure (\<lambda>(sha1, rt, clock, lines, k, i). length lines - i)") auto

declare coLoop.simps [simp del]

text \<open>
  The walk as the specification words it: look at the first three of the remaining lines;
  on acceptance go on behind all three, on rejection go on behind the first. To be compared
  with \<open>coLoop\<close>.
\<close>

fun slidingWindow ::
  "(string \<Rightarrow> string) \<Rightarrow> runtime \<Rightarrow> (nat \<Rightarrow> string) \<Rightarrow> nat \<Rightarrow> string list \<Rightarrow> event list" where
  "slidingWindow sha1 rt clock k (l0 # l1 # l2 # rest) =
     (case coTriple sha1 rt (clock k) l0 l1 l2 of
        Some e \<Rightarrow> e # slidingWindow sha1 rt clock (Suc k) rest
      | None \<Rightarrow> slidingWindow sha1 rt clock k (l1 # l2 # rest))"
| "slidingWindow sha1 rt clock k ls = []"

text \<open>\<open>section.split("\n")\<close>.\<close>

fun split :: "char \<Rightarrow> string \<Rightarrow> string list" where
  "split sep [] = [[]]"
| "split sep (c # s) =
     (if c = sep then [] # split sep s
      else (case split sep s of [] \<Rightarrow> [[c]] | l # ls \<Rightarrow> (c # l) # ls))"

definition coLines :: "runtime \<Rightarrow> string \<Rightarrow> string list" where
  "coLines rt section =
     filter (\<lambda>l. toLowerCase rt l \<notin> set [''body of water'', ''region'', ''report date'',
                                           ''link'', ''atlas'', ''atlas+''])
       (filter (\<lambda>l. l \<noteq> []) (map trim (split (CHR 0x0A) section)))"

text \<open>
  The part of \<open>fetchColoradoEvents\<close> from the section of the page text on: the lines, the
  walk over them, and the filter on repeated ids.
\<close>

definition coEvents ::
  "(string \<Rightarrow> string) \<Rightarrow> runtime \<Rightarrow> (nat \<Rightarrow> string) \<Rightarrow> string \<Rightarrow> event list" where
  "coEvents sha1 rt clock section =
     dedupById [] (coLoop sha1 rt clock (coLines rt section) 0 0)"

section \<open>The record store (db.js)\<close>

text \<open>
  The filter columns of a subscription hold JSON text. The \<open>/subscribe\<close> route stores an
  array for each (\<open>Array.isArray(counties) ? counties : []\<close>), and \<open>safeJson\<close> gives \<open>[]\<close>
  for text that does not parse, so each filter is a list; its members are whatever JSON
  values the client sent. A number is kept as its text.
\<close>

datatype json =
    JNull
  | JBool bool
  | JNum string
  | JStr string
  | JArr "json list"
  | JObj "(string \<times> json) list"

record subscription =
  sub_id :: nat
  expo_push_token :: string
  counties :: "json list"
  species_sub :: "json list"
  waters :: "json list"

text \<open>
  The two tables, each as the list of its rows in insertion order; the subscriptions are
  kept as \<open>listSubscriptions\<close> decodes them.
\<close>

record db =
  stock_events :: "event list"
  subscriptions :: "subscription list"

definition listSubscriptions :: "db \<Rightarrow> subscription list" where
  "listSubscriptions d = subscriptions d"

text \<open>
  \<open>INSERT OR IGNORE\<close> on a table whose primary key is the id: the table after the
  statement, and \<open>info.changes\<close>.
\<close>

definition insert_run :: "event list \<Rightarrow> event \<Rightarrow> event list \<times> nat" where
  "insert_run tbl e =
     (if event_id e \<in> event_id ` set tbl then (tbl, 0) else (tbl @ [e], 1))"

fun tx :: "event list \<Rightarrow> nat \<Rightarrow> event list \<Rightarrow> event list \<times> nat" where
  "tx tbl inserted [] = (tbl, inserted)"
| "tx tbl inserted (e # evs) =
     (case insert_run tbl e of
        (tbl', changes) \<Rightarrow> tx tbl' (if 0 < changes then inserted + 1 else inserted) evs)"

text \<open>
  \<open>SELECT * FROM stock_events ORDER BY first_seen_at DESC LIMIT ?\<close>. The column is text and
  is compared byte by byte. SQL leaves the order of rows with equal keys open; here they
  stay in insertion order.
\<close>

fun insertDesc :: "event \<Rightarrow> event list \<Rightarrow> event list" where
  "insertDesc e [] = [e]"
| "insertDesc e (x # xs) =
     (if first_seen_at x \<le> first_seen_at e then e # x # xs else x # insertDesc e xs)"

definition orderByFirstSeenDesc :: "event list \<Rightarrow> event list" where
  "orderByFirstSeenDesc tbl = foldr insertDesc tbl []"

record insert_result =
  insertedCount :: nat
  newOnes :: "event list"

definition insertNewEvents :: "db \<Rightarrow> event list \<Rightarrow> insert_result \<times> db" where
  "insertNewEvents d events =
     (case tx (stock_events d) 0 events of
        (tbl, n) \<Rightarrow>
          (\<lparr> insertedCount = n, newOnes = take n (orderByFirstSeenDesc tbl) \<rparr>,
           d\<lparr> stock_events := tbl \<rparr>))"

section \<open>Matching and messages (notify.js)\<close>

record notification =
  title :: string
  body :: string
  data_eventId :: string

text \<open>The em dash and the bullet of the message body, in UTF-8.\<close>

definition emDash :: string where
  "emDash = [CHR 0xE2, CHR 0x80, CHR 0x94]"

definition bullet :: string where
  "bullet = [CHR 0xE2, CHR 0x80, CHR 0xA2]"

text \<open>
  \<open>event.quantity ? ... : ...\<close> and \<open>event.avg_length ? ... : ...\<close> test truthiness: \<open>null\<close>
  and zero both take the second branch. The quantity of a stored event is a whole number.
\<close>

definition formatNotification :: "runtime \<Rightarrow> event \<Rightarrow> notification" where
  "formatNotification rt ev =
     (let qty = (case quantity ev of
                   None \<Rightarrow> ''Fish stocked''
                 | Some q \<Rightarrow> if truthy rt True (q, []) then toLocaleString rt q @ '' fish''
                            else ''Fish stocked'');
          len = (case avg_length ev of
                   None \<Rightarrow> ''''
                 | Some l \<Rightarrow> if truthy rt False l
                            then '' '' @ bullet @ '' '' @ showNumber rt False l
                                 @ [CHR 0x22] @ '' avg''
                            else '''')
      in \<lparr> title = ''Stocked: '' @ species ev,
           body = water_name ev @ '' ('' @ county ev @ '') '' @ emDash @ '' '' @ qty @ len
                  @ '' '' @ emDash @ '' '' @ date_stocked ev,
           data_eventId = event_id ev \<rparr>)"

text \<open>\<open>xs.join(",")\<close>.\<close>

fun joinComma :: "string list \<Rightarrow> string" where
  "joinComma [] = []"
| "joinComma [x] = x"
| "joinComma (x # y # r) = x @ '','' @ joinComma (y # r)"

text \<open>
  \<open>String(x)\<close> for a JSON value: a string is left as it is, an array is the join of its
  members (with \<open>null\<close> as the empty string), and every object is \<open>[object Object]\<close>.
\<close>

fun stringOf :: "runtime \<Rightarrow> json \<Rightarrow> string" where
  "stringOf rt JNull = ''null''"
| "stringOf rt (JBool b) = (if b then ''true'' else ''false'')"
| "stringOf rt (JNum t) = jsonNum rt t"
| "stringOf rt (JStr s) = s"
| "stringOf rt (JArr xs) = joinComma (map (\<lambda>x. if x = JNull then [] else stringOf rt x) xs)"
| "stringOf rt (JObj kvs) = ''[object Object]''"

text \<open>
  The fields of the event are strings, on which \<open>String(x)\<close> and \<open>x || ""\<close> change nothing.
\<close>

definition matchesSubscription :: "runtime \<Rightarrow> event \<Rightarrow> subscription \<Rightarrow> bool" where
  "matchesSubscription rt ev sub =
     (let evCounty = trim (toUpperCase rt (county ev));
          evSpecies = trim (toUpperCase rt (species ev));
          evWater = trim (toUpperCase rt (water_name ev));
          subCounties = map (\<lambda>x. trim (toUpperCase rt (stringOf rt x))) (counties sub);
          subSpecies = map (\<lambda>x. trim (toUpperCase rt (stringOf rt x))) (species_sub sub);
          subWaters = map (\<lambda>x. trim (toUpperCase rt (stringOf rt x))) (waters sub);
          countyOk = (length subCounties = 0 \<or> evCounty \<in> set subCounties);
          speciesOk = (length subSpecies = 0 \<or> evSpecies \<in> set subSpecies);
          waterOk = (length subWaters = 0 \<or> evWater \<in> set subWaters)
      in countyOk \<and> speciesOk \<and> waterOk)"

section \<open>One poll cycle (\<open>runPollOnce\<close>)\<close>

record message = notification +
  to :: string
  sound :: string

record http_response =
  status :: nat
  text_res :: string

text \<open>\<open>res.ok\<close>: the status is one of 200 to 299.\<close>

definition ok :: "http_response \<Rightarrow> bool" where
  "ok res = (200 \<le> status res \<and> status res \<le> 299)"

datatype error = MissingPollUrl | FetchFailed nat | ExpoPushFailed nat string

text \<open>The two nested loops over the new events and the subscriptions.\<close>

definition messagesFor :: "runtime \<Rightarrow> event list \<Rightarrow> subscription list \<Rightarrow> message list" where
  "messagesFor rt evs subs =
     concat (map (\<lambda>ev.
       concat (map (\<lambda>sub.
         if expo_push_token sub = [] then []
         else if \<not> matchesSubscription rt ev sub then []
         else let n = formatNotification rt ev in
              [\<lparr> title = title n, body = body n, data_eventId = data_eventId n,
                  to = expo_push_token sub, sound = ''default'' \<rparr>]) subs)) evs)"

text \<open>
  \<open>dedup.set(key, m)\<close> on a \<open>Map\<close>: a key that is present keeps its place and takes the new
  value, a new key goes to the end. \<open>Array.from(dedup.values())\<close> lists the values in that
  order.
\<close>

fun mapSet :: "(string \<times> message) list \<Rightarrow> string \<Rightarrow> message \<Rightarrow> (string \<times> message) list" where
  "mapSet [] k v = [(k, v)]"
| "mapSet ((k', v') # kvs) k v =
     (if k' = k then (k, v) # kvs else (k', v') # mapSet kvs k v)"

definition dedupMessages :: "message list \<Rightarrow> message list" where
  "dedupMessages messages =
     map snd (foldl (\<lambda>dedup m. mapSet dedup (to m @ ''|'' @ data_eventId m) m) [] messages)"

text \<open>
  \<open>sendExpoPushMessages\<close>: \<open>expo\<close> is the push gateway, from the posted batch to its
  response. The result is \<open>sent\<close> and \<open>response\<close>.
\<close>

definition sendExpoPushMessages ::
  "(message list \<Rightarrow> http_response) \<Rightarrow> message list \<Rightarrow> error + (nat \<times> string option)" where
  "sendExpoPushMessages expo messages =
     (if length messages = 0 then Inr (0, None)
      else let res = expo messages in
           if \<not> ok res then Inl (ExpoPushFailed (status res) (text_res res))
           else Inr (length messages, Some (text_res res)))"

record poll_summary =
  parsed :: nat
  inserted :: nat
  subscriptions_count :: nat
  matchedMessages :: nat
  pushed :: nat
  expoResponse :: "string option"

text \<open>
  The environment of a cycle: the hash, the runtime, the clock, \<open>POLL_URL\<close> (\<open>None\<close> when
  the variable is not set), the web (from a URL to the response of a GET) and the push
  gateway. A request that gets no response at all is not modelled. The result is the
  summary or the error thrown, the store after the cycle, and the batch handed to the
  gateway.
\<close>

definition finalMsgs :: "runtime \<Rightarrow> event list \<Rightarrow> subscription list \<Rightarrow> message list" where
  "finalMsgs rt new subs = dedupMessages (messagesFor rt new subs)"

definition runPollOnce ::
  "(string \<Rightarrow> string) \<Rightarrow> runtime \<Rightarrow> (nat \<Rightarrow> string) \<Rightarrow> string option
     \<Rightarrow> (string \<Rightarrow> http_response) \<Rightarrow> (message list \<Rightarrow> http_response) \<Rightarrow> db
     \<Rightarrow> (error + poll_summary) \<times> db \<times> message list" where
  "runPollOnce sha1 rt clock POLL_URL fetch expo d =
     (case POLL_URL of
        None \<Rightarrow> (Inl MissingPollUrl, d, [])
      | Some url \<Rightarrow>
          if url = [] then (Inl MissingPollUrl, d, [])
          else
          let res = fetch url in
          if \<not> ok res then (Inl (FetchFailed (status res)), d, [])
          else
            let events = parseDwrFishStockingHtml sha1 rt clock (text_res res) in
            (case insertNewEvents d events of
               (r, d') \<Rightarrow>
                 let subs = listSubscriptions d';
                     msgs = finalMsgs rt (newOnes r) subs
                 in if length msgs = 0 then
                      (Inr \<lparr> parsed = length events, inserted = insertedCount r,
                             subscriptions_count = length subs, matchedMessages = length msgs,
                             pushed = 0, expoResponse = None \<rparr>, d', [])
                    else
                      (case sendExpoPushMessages expo msgs of
                         Inl err \<Rightarrow> (Inl err, d', msgs)
                       | Inr (sent, response) \<Rightarrow>
                           (Inr \<lparr> parsed = length events, inserted = insertedCount r,
                                  subscriptions_count = length subs,
                                  matchedMessages = length msgs,
                                  pushed = sent, expoResponse = response \<rparr>, d', msgs))))"

section \<open>Text search and example inputs\<close>

text \<open>\<open>str.includes(t)\<close>: \<open>t\<close> occurs in \<open>str\<close> as a contiguous piece.\<close>

fun includes_str :: "string \<Rightarrow> string \<Rightarrow> bool" where
  "includes_str [] t = (t = [])"
| "includes_str (c # s) t = (take (length t) (c # s) = t \<or> includes_str s t)"

text \<open>
  Three table rows: one with six cells, one with five, and one with six cells whose first
  cell holds only a space and a no-break space (U+00A0). A fourth row has a date cell
  without a date.
\<close>

definition blueLakeRow :: string where
  "blueLakeRow = ''<tr><td>Blue Lake</td><td>Wasatch</td><td>Rainbow Trout</td><td>1,200</td><td>10.5</td><td>3/4/2026</td></tr>''"

definition fiveCellRow :: string where
  "fiveCellRow = ''<tr><td>Red Lake</td><td>Summit</td><td>Brown Trout</td><td>500</td><td>3/5/2026</td></tr>''"

definition noWaterRow :: string where
  "noWaterRow = ''<tr><td> '' @ [CHR 0xC2, CHR 0xA0] @ ''</td><td>Utah</td><td>Tiger Trout</td><td>700</td><td>9</td><td>3/6/2026</td></tr>''"

definition noDateRow :: string where
  "noDateRow = ''<tr><td>Red Lake</td><td>Summit</td><td>Brown Trout</td><td>500</td><td>11</td><td>March 5, 2026</td></tr>''"

definition threeRowPage :: string where
  "threeRowPage = ''<table>'' @ blueLakeRow @ fiveCellRow @ noWaterRow @ ''</table>''"

text \<open>
  Seven lines of page text, with a column label between two triples, and a section of a
  page that starts with the heading and holds these lines.
\<close>

definition troutLines :: "string list" where
  "troutLines = [''Blue Lake'', ''Wasatch'', ''3/4/2026'', ''Body of Water'',
                 ''Green Lake'', ''Summit'', ''3/5/2026'']"

definition troutSection :: string where
  "troutSection = ''Trout Stocking Report'' @ [CHR 0x0A]
     @ ''Blue Lake'' @ [CHR 0x0A] @ ''Wasatch'' @ [CHR 0x0A] @ ''3/4/2026'' @ [CHR 0x0A]
     @ ''Body of Water'' @ [CHR 0x0A] @ ''Green Lake'' @ [CHR 0x0A] @ ''Summit'' @ [CHR 0x0A]
     @ ''3/5/2026''"

text \<open>
  Two clocks that stand still, a day apart, a hash that returns its input, and one
  subscription.
\<close>

definition noon :: "nat \<Rightarrow> string" where
  "noon k = ''2026-03-04T12:00:00.000Z''"

definition nextDay :: "nat \<Rightarrow> string" where
  "nextDay k = ''2026-03-05T12:00:00.000Z''"

definition plain :: "string \<Rightarrow> string" where
  "plain s = s"

definition tok1 :: subscription where
  "tok1 = \<lparr> sub_id = 1, expo_push_token = ''TOK1'', counties = [JStr ''WASATCH''],
            species_sub = [], waters = [] \<rparr>"

text \<open>
  A runtime for the examples. Of the text beyond ASCII it knows the letter \<open>n\<close> with tilde
  (U+00F1, upper case U+00D1) and leaves the rest as it is; a number beyond the exact range
  is finite up to 308 digits and is shown as its text.
\<close>

definition smallRuntime :: runtime where
  "smallRuntime =
     \<lparr> upperRun = (\<lambda>pre run post.
          if run = [CHR 0xC3, CHR 0xB1] then [CHR 0xC3, CHR 0x91] else run),
       lowerRun = (\<lambda>pre run post.
          if run = [CHR 0xC3, CHR 0x91] then [CHR 0xC3, CHR 0xB1] else run),
       finiteNum = (\<lambda>t. length t \<le> 308),
       showNum = (\<lambda>t. t),
       truthyNum = (\<lambda>t. True),
       localeNum = (\<lambda>t. t),
       jsonNum = (\<lambda>t. t) \<rparr>"

text \<open>
  A web that answers every request with the page that holds the six-cell row, the URL that
  is polled, and a push gateway that accepts every batch.
\<close>

definition dwrPage :: "string \<Rightarrow> http_response" where
  "dwrPage url = \<lparr> status = 200, text_res = blueLakeRow \<rparr>"

definition pollUrl :: string where
  "pollUrl = ''https://dwr.example/fishstocking''"

definition expoOk :: "message list \<Rightarrow> http_response" where
  "expoOk messages = \<lparr> status = 200, text_res = ''{}'' \<rparr>"

section \<open>Evaluation of the scans\<close>

text \<open>
  Equations that decide a case-insensitive prefix test at its first differing character,
  so that the scans over a concrete page evaluate quickly.
\<close>

lemma ciPrefix_code [code]:
  "ciPrefix [] s = True"
  "ciPrefix (p # ps) [] = False"
  "ciPrefix (p # ps) (c # s) = (if lowerChar c = p then ciPrefix ps s else False)"
  by (auto simp: ciPrefix_def)

lemma lowerChar_code [code]:
  "lowerChar c =
     (if c < CHR ''A'' then c else if CHR ''Z'' < c then c else
      (case map_of (zip ''ABCDEFGHIJKLMNOPQRSTUVWXYZ'' ''abcdefghijklmnopqrstuvwxyz'') c of
         Some l \<Rightarrow> l | None \<Rightarrow> c))"
  by (simp add: lowerChar_def)

lemma threeRowPage_rows:
  "blocks ''<tr'' ''</tr>'' 0 threeRowPage = [blueLakeRow, fiveCellRow, noWaterRow]"
  by code_simp

lemma blueLakeRow_rows: "blocks ''<tr'' ''</tr>'' 0 blueLakeRow = [blueLakeRow]"
  by code_simp

lemma blueLakeRow_cells:
  "blocks ''<td'' ''</td>'' 0 blueLakeRow =
     [''<td>Blue Lake</td>'', ''<td>Wasatch</td>'', ''<td>Rainbow Trout</td>'',
      ''<td>1,200</td>'', ''<td>10.5</td>'', ''<td>3/4/2026</td>'']"
  by code_simp

lemma blueLakeRow_text:
  "map stripTags [''<td>Blue Lake</td>'', ''<td>Wasatch</td>'', ''<td>Rainbow Trout</td>'',
      ''<td>1,200</td>'', ''<td>10.5</td>'', ''<td>3/4/2026</td>'']
   = [''Blue Lake'', ''Wasatch'', ''Rainbow Trout'', ''1,200'', ''10.5'', ''3/4/2026'']"
  by code_simp

lemma blueLakeRow_event:
  "dwrRow sha1 rt now blueLakeRow =
     Some \<lparr> event_id = sha1 ''Blue Lake|Wasatch|Rainbow Trout|1200|10.5|2026-03-04'',
            water_name = ''Blue Lake'', county = ''Wasatch'', species = ''Rainbow Trout'',
            quantity = Some 1200, avg_length = Some (10, ''5''),
            date_stocked = ''2026-03-04'', first_seen_at = now \<rparr>"
  by code_simp

lemma fiveCellRow_cells: "length (blocks ''<td'' ''</td>'' 0 fiveCellRow) = 5"
  by code_simp

lemma noWaterRow_cells:
  "blocks ''<td'' ''</td>'' 0 noWaterRow =
     [''<td> '' @ [CHR 0xC2, CHR 0xA0] @ ''</td>'', ''<td>Utah</td>'', ''<td>Tiger Trout</td>'',
      ''<td>700</td>'', ''<td>9</td>'', ''<td>3/6/2026</td>'']"
  by code_simp

lemma noWaterRow_text:
  "map stripTags [''<td> '' @ [CHR 0xC2, CHR 0xA0] @ ''</td>'', ''<td>Utah</td>'', ''<td>Tiger Trout</td>'',
      ''<td>700</td>'', ''<td>9</td>'', ''<td>3/6/2026</td>'']
   = ['''', ''Utah'', ''Tiger Trout'', ''700'', ''9'', ''3/6/2026'']"
  by code_simp



section \<open>Properties of date normalization\<close>









section \<open>Number rendering\<close>

lemma digitVal_digitChar: "digitVal (digitChar n) = n mod 10"
proof -
  have "\<forall>m \<in> set [0..<10]. digitVal (''0123456789'' ! m) = m" by code_simp
  moreover have "n mod 10 \<in> set [0..<10]" by simp
  ultimately show ?thesis unfolding digitChar_def by (simp del: set_upt)
qed

lemma isDigit_digitChar: "isDigit (digitChar n)"
proof -
  have "\<forall>m \<in> set [0..<10]. isDigit (''0123456789'' ! m)" by code_simp
  moreover have "n mod 10 \<in> set [0..<10]" by simp
  ultimately show ?thesis unfolding digitChar_def by (simp del: set_upt)
qed

lemma digitsOf_digits: "list_all isDigit (digitsOf n)"
  by (induction n rule: digitsOf.induct) (subst digitsOf.simps, simp add: isDigit_digitChar)

lemma digitsOf_nonempty: "digitsOf n \<noteq> []"
  by (subst digitsOf.simps) simp

lemma parseDigits_snoc: "parseDigits (xs @ [c]) = 10 * parseDigits xs + digitVal c"
  by (simp add: parseDigits_def)

lemma parseDigits_digitsOf: "parseDigits (digitsOf n) = n"
proof (induction n rule: digitsOf.induct)
  case (1 n)
  show ?case
  proof (cases "n < 10")
    case True
    then show ?thesis
      by (subst digitsOf.simps) (simp add: parseDigits_def digitVal_digitChar)
  next
    case False
    with "1.IH" have "parseDigits (digitsOf (n div 10)) = n div 10" by simp
    with False show ?thesis
      by (subst digitsOf.simps) (simp add: parseDigits_snoc digitVal_digitChar)
  qed
qed

lemma digitsOf_inj: "digitsOf a = digitsOf b \<Longrightarrow> a = b"
  by (metis parseDigits_digitsOf)

text \<open>A decimal as the parser builds it: the fraction consists of digits.\<close>

lemma parseFloat_digits: "parseFloat s = Some (n, f) \<Longrightarrow> list_all isDigit f"
proof -
  assume a: "parseFloat s = Some (n, f)"
  define fp where "fp = (case dropWhile isDigit s of [] \<Rightarrow> []
     | c # t \<Rightarrow> if c = CHR ''.'' then takeWhile isDigit t else [])"
  have d: "list_all isDigit fp"
    unfolding fp_def by (auto simp: list_all_iff split: list.splits dest: set_takeWhileD)
  from a have "f = rev (dropWhile (\<lambda>c. c = CHR ''0'') (rev fp))"
    unfolding parseFloat_def Let_def fp_def by (simp split: if_splits)
  then have "set f \<subseteq> set fp" using set_dropWhileD by fastforce
  with d show ?thesis by (auto simp: list_all_iff)
qed

lemma decimalText_split:
  assumes "list_all isDigit f"
  shows "takeWhile isDigit (decimalText (n, f)) = digitsOf n"
    and "dropWhile isDigit (decimalText (n, f)) = (if f = [] then [] else ''.'' @ f)"
proof -
  have nd: "\<not> isDigit (CHR ''.'')" by (simp add: isDigit_def)
  have all: "\<And>x. x \<in> set (digitsOf n) \<Longrightarrow> isDigit x"
    using digitsOf_digits[of n] by (simp add: list_all_iff)
  show "takeWhile isDigit (decimalText (n, f)) = digitsOf n"
    unfolding decimalText_def using all nd by (simp add: takeWhile_append2)
  show "dropWhile isDigit (decimalText (n, f)) = (if f = [] then [] else ''.'' @ f)"
    unfolding decimalText_def using all nd by (simp add: dropWhile_append2)
qed

lemma decimalText_inj:
  assumes "list_all isDigit f" "list_all isDigit f'" "decimalText (n, f) = decimalText (n', f')"
  shows "(n, f) = (n', f')"
proof -
  from decimalText_split(1)[OF assms(1), of n] decimalText_split(1)[OF assms(2), of n'] assms(3)
  have "digitsOf n = digitsOf n'" by simp
  then have "n = n'" by (rule digitsOf_inj)
  moreover from decimalText_split(2)[OF assms(1), of n] decimalText_split(2)[OF assms(2), of n']
    assms(3)
  have "(if f = [] then [] else ''.'' @ f) = (if f' = [] then [] else ''.'' @ f')" by simp
  then have "f = f'" by (auto split: if_splits)
  ultimately show ?thesis by simp
qed

lemma decimalText_nonempty: "decimalText x \<noteq> []"
  by (simp add: decimalText_def digitsOf_nonempty)

text \<open>Every decimal that \<open>parseFloat\<close> returns is canonical.\<close>

lemma parseFloat_canonical: "parseFloat s = Some x \<Longrightarrow> canonical x"
proof -
  assume a: "parseFloat s = Some x"
  obtain n f where x: "x = (n, f)" by (cases x)
  define fp where "fp = (case dropWhile isDigit s of [] \<Rightarrow> []
     | c # t \<Rightarrow> if c = CHR ''.'' then takeWhile isDigit t else [])"
  from a x have f: "f = rev (dropWhile (\<lambda>c. c = CHR ''0'') (rev fp))"
    unfolding parseFloat_def Let_def fp_def by (simp split: if_splits)
  have "f = [] \<or> last f \<noteq> CHR ''0''"
  proof (cases "dropWhile (\<lambda>c. c = CHR ''0'') (rev fp)")
    case Nil
    with f show ?thesis by simp
  next
    case (Cons c cs)
    then have "c \<noteq> CHR ''0''" using hd_dropWhile[of "\<lambda>c. c = CHR ''0''" "rev fp"] by auto
    with f Cons show ?thesis by simp
  qed
  with parseFloat_digits[of s n f] a x show ?thesis by (simp add: canonical_def)
qed

text \<open>In the exact range a number is written as its decimal, and differently from any other.\<close>

lemma showNumber_exact: "inRange x \<Longrightarrow> showNumber rt w x = decimalText x"
  by (simp add: showNumber_def)

lemma showNumber_inj:
  assumes "exact (Some x)" "exact (Some x')" "showNumber rt w x = showNumber rt w' x'"
  shows "x = x'"
proof -
  from assms(1,2) have r: "inRange x" "inRange x'"
    and d: "list_all isDigit (snd x)" "list_all isDigit (snd x')"
    by (simp_all add: exact_def canonical_def)
  from assms(3) r have "decimalText (fst x, snd x) = decimalText (fst x', snd x')"
    by (simp add: showNumber_exact)
  from decimalText_inj[OF d this] show ?thesis by (simp add: prod_eq_iff)
qed

lemma showNumber_nonempty: "inRange x \<Longrightarrow> showNumber rt w x \<noteq> []"
  by (simp add: showNumber_exact decimalText_nonempty)

lemma inRange_examples:
  "inRange (0, [])" "inRange (1200, [])" "inRange (1250, [])" "inRange (10, ''5'')"
  "inRange (0, ''000001'')" "\<not> inRange (0, ''0000001'')"
  "inRange (999999999999999, [])" "\<not> inRange (9007199254740992, [])"
  "\<not> inRange (9007199254740993, [])"
  by (simp_all add: inRange_def digitsOf.simps)

lemma exact_whole_iff: "exact (whole q) \<longleftrightarrow> (case q of None \<Rightarrow> True | Some n \<Rightarrow> inRange (n, []))"
  by (simp add: exact_def whole_def canonical_def split: option.splits)

section \<open>Properties of the tabular extractor\<close>

lemma dedupById_subset: "set (dedupById seen es) \<subseteq> set es"
  by (induction es arbitrary: seen) auto

lemma dedupById_ids: "event_id ` set (dedupById seen es) = event_id ` set es - set seen"
  by (induction es arbitrary: seen) auto

lemma dwrRow_clock:
  "dwrRow sha1 rt now row = Some e \<Longrightarrow> dwrRow sha1 rt now' row = Some (e\<lparr> first_seen_at := now' \<rparr>)"
  by (auto simp: dwrRow_def Let_def split: if_splits)

lemma dwrRows_sound:
  "e \<in> set (dwrRows sha1 rt clock k rows) \<Longrightarrow> \<exists>row \<in> set rows. \<exists>now. dwrRow sha1 rt now row = Some e"
proof (induction rows arbitrary: k)
  case Nil
  then show ?case by simp
next
  case (Cons row rows)
  then show ?case by (cases "dwrRow sha1 rt (clock k) row") fastforce+
qed

lemma dwrRows_complete:
  "row \<in> set rows \<Longrightarrow> dwrRow sha1 rt now row = Some e \<Longrightarrow>
     \<exists>e' \<in> set (dwrRows sha1 rt clock k rows). \<exists>now'. e' = e\<lparr> first_seen_at := now' \<rparr>"
proof (induction rows arbitrary: k)
  case Nil
  then show ?case by simp
next
  case (Cons r rows)
  show ?case
  proof (cases "row = r")
    case True
    from dwrRow_clock[OF Cons.prems(2), of "clock k"] True
    have "dwrRow sha1 rt (clock k) r = Some (e\<lparr> first_seen_at := clock k \<rparr>)" by simp
    then show ?thesis by auto
  next
    case False
    with Cons.prems have "row \<in> set rows" by simp
    from Cons.IH[OF this Cons.prems(2)] show ?thesis
      by (cases "dwrRow sha1 rt (clock k) r") auto
  qed
qed

lemma parseDwr_sound:
  "e \<in> set (parseDwrFishStockingHtml sha1 rt clock html) \<Longrightarrow>
     \<exists>row \<in> set (blocks ''<tr'' ''</tr>'' 0 html). \<exists>now. dwrRow sha1 rt now row = Some e"
  unfolding parseDwrFishStockingHtml_def using dedupById_subset dwrRows_sound by blast

lemma parseDwr_complete:
  assumes "row \<in> set (blocks ''<tr'' ''</tr>'' 0 html)" "dwrRow sha1 rt now row = Some e"
  shows "\<exists>e' \<in> set (parseDwrFishStockingHtml sha1 rt clock html). event_id e' = event_id e"
proof -
  from dwrRows_complete[OF assms, of clock 0] obtain e' now' where
    e': "e' \<in> set (dwrRows sha1 rt clock 0 (blocks ''<tr'' ''</tr>'' 0 html))" "e' = e\<lparr> first_seen_at := now' \<rparr>"
    by blast
  then have "event_id e' = event_id e" by simp
  with e'(1) have "event_id e \<in> event_id ` set (dwrRows sha1 rt clock 0 (blocks ''<tr'' ''</tr>'' 0 html))"
    by (metis imageI)
  then have "event_id e \<in> event_id ` set (parseDwrFishStockingHtml sha1 rt clock html)"
    unfolding parseDwrFishStockingHtml_def dedupById_ids by simp
  then show ?thesis by force
qed

lemma dwrRow_six:
  assumes "6 \<le> length (blocks ''<td'' ''</td>'' 0 row)"
  shows "dwrRow sha1 rt now row =
     (let tds = blocks ''<td'' ''</td>'' 0 row;
          water = stripTags (tds ! 0);
          cnty = stripTags (tds ! 1);
          spec = stripTags (tds ! 2);
          qty = finiteQuantity rt (parseInt10 (filter isDigit (stripTags (tds ! 3))));
          len = finiteLength rt
                  (parseFloat (filter (\<lambda>c. isDigit c \<or> c = CHR ''.'') (stripTags (tds ! 4))));
          date = normalizeDate (stripTags (tds ! 5))
      in if water = [] \<or> cnty = [] \<or> spec = [] \<or> date = [] then None
         else Some \<lparr> event_id = sha1 (dwrFingerprint rt water cnty spec qty len date),
                     water_name = water, county = cnty, species = spec,
                     quantity = qty, avg_length = len,
                     date_stocked = date, first_seen_at = now \<rparr>)"
proof -
  let ?tds = "blocks ''<td'' ''</td>'' 0 row"
  have n: "map stripTags ?tds ! i = stripTags (?tds ! i)" if "i < 6" for i
    using that assms by (intro nth_map) simp
  have "map stripTags ?tds ! 0 = stripTags (?tds ! 0)" "map stripTags ?tds ! 1 = stripTags (?tds ! 1)"
    "map stripTags ?tds ! 2 = stripTags (?tds ! 2)" "map stripTags ?tds ! 3 = stripTags (?tds ! 3)"
    "map stripTags ?tds ! 4 = stripTags (?tds ! 4)" "map stripTags ?tds ! 5 = stripTags (?tds ! 5)"
    by (simp_all only: n)
  moreover have "\<not> length ?tds < 6" using assms by simp
  ultimately show ?thesis unfolding dwrRow_def Let_def by (simp only: if_False)
qed

lemma parseDwr_blueLakeRow:
  "parseDwrFishStockingHtml sha1 rt clock blueLakeRow =
     [\<lparr> event_id = sha1 ''Blue Lake|Wasatch|Rainbow Trout|1200|10.5|2026-03-04'',
        water_name = ''Blue Lake'', county = ''Wasatch'', species = ''Rainbow Trout'',
        quantity = Some 1200, avg_length = Some (10, ''5''),
        date_stocked = ''2026-03-04'', first_seen_at = clock 0 \<rparr>]"
  by (simp add: parseDwrFishStockingHtml_def blueLakeRow_rows blueLakeRow_event)

lemma fiveCellRow_dropped: "dwrRow sha1 rt now fiveCellRow = None"
  by (simp add: dwrRow_def fiveCellRow_cells)

lemma noWaterRow_dropped: "dwrRow sha1 rt now noWaterRow = None"
  by code_simp

lemma parseDwr_threeRowPage:
  "parseDwrFishStockingHtml sha1 rt clock threeRowPage =
     [\<lparr> event_id = sha1 ''Blue Lake|Wasatch|Rainbow Trout|1200|10.5|2026-03-04'',
        water_name = ''Blue Lake'', county = ''Wasatch'', species = ''Rainbow Trout'',
        quantity = Some 1200, avg_length = Some (10, ''5''),
        date_stocked = ''2026-03-04'', first_seen_at = clock 0 \<rparr>]"
  by (simp add: parseDwrFishStockingHtml_def threeRowPage_rows blueLakeRow_event
      fiveCellRow_dropped noWaterRow_dropped)

lemma dwrRow_fields:
  assumes "dwrRow sha1 rt now row = Some e"
  shows "6 \<le> length (blocks ''<td'' ''</td>'' 0 row)"
    and "water_name e = stripTags (blocks ''<td'' ''</td>'' 0 row ! 0)"
    and "county e = stripTags (blocks ''<td'' ''</td>'' 0 row ! 1)"
    and "species e = stripTags (blocks ''<td'' ''</td>'' 0 row ! 2)"
    and "quantity e = finiteQuantity rt
                        (parseInt10 (filter isDigit (stripTags (blocks ''<td'' ''</td>'' 0 row ! 3))))"
    and "avg_length e = finiteLength rt (parseFloat (filter (\<lambda>c. isDigit c \<or> c = CHR ''.'')
                          (stripTags (blocks ''<td'' ''</td>'' 0 row ! 4))))"
    and "date_stocked e = normalizeDate (stripTags (blocks ''<td'' ''</td>'' 0 row ! 5))"
    and "event_id e = sha1 (dwrFingerprint rt (water_name e) (county e) (species e) (quantity e)
                             (avg_length e) (date_stocked e))"
proof -
  show six: "6 \<le> length (blocks ''<td'' ''</td>'' 0 row)"
    using assms by (cases "length (blocks ''<td'' ''</td>'' 0 row) < 6") (simp_all add: dwrRow_def)
  from assms dwrRow_six[OF six, of sha1 rt now]
  show "water_name e = stripTags (blocks ''<td'' ''</td>'' 0 row ! 0)"
    and "county e = stripTags (blocks ''<td'' ''</td>'' 0 row ! 1)"
    and "species e = stripTags (blocks ''<td'' ''</td>'' 0 row ! 2)"
    and "quantity e = finiteQuantity rt
                        (parseInt10 (filter isDigit (stripTags (blocks ''<td'' ''</td>'' 0 row ! 3))))"
    and "avg_length e = finiteLength rt (parseFloat (filter (\<lambda>c. isDigit c \<or> c = CHR ''.'')
                          (stripTags (blocks ''<td'' ''</td>'' 0 row ! 4))))"
    and "date_stocked e = normalizeDate (stripTags (blocks ''<td'' ''</td>'' 0 row ! 5))"
    and "event_id e = sha1 (dwrFingerprint rt (water_name e) (county e) (species e) (quantity e)
                             (avg_length e) (date_stocked e))"
    by (auto simp: Let_def split: if_splits)
qed

lemma noDateRow_dropped: "dwrRow sha1 rt now noDateRow = None"
  by code_simp

lemma finiteLength_canonical:
  "finiteLength rt (parseFloat s) = Some x \<Longrightarrow> canonical x"
  by (auto simp: finiteLength_def split: option.splits if_splits dest: parseFloat_canonical)

lemma dwrRow_canonical:
  assumes "dwrRow sha1 rt now row = Some e"
  shows "case avg_length e of None \<Rightarrow> True | Some x \<Rightarrow> canonical x"
  using dwrRow_fields(6)[OF assms] finiteLength_canonical[of rt]
  by (auto split: option.splits)

text \<open>
  Claim C8. For every table row \<open>row\<close> of the input document, with \<open>tds\<close> its cell blocks:
  if there are fewer than six cells the row yields no event; if the first cell is empty
  once its markup is stripped and its white space trimmed (a cell that holds nothing but
  spaces or no-break spaces is empty) the row yields no event, whatever the other cells
  hold; and
  if there are six cells (or more) and the water, county and species cells are non-empty
  after stripping and the date cell normalizes to a non-empty date, the row is accepted: it
  yields an event with these four values, whatever the quantity and length cells hold, and
  the result of \<open>parseDwrFishStockingHtml\<close> holds an event with its id (the row's own
  event, or that of an earlier row with the same id). Every event of the result comes from
  an accepted row.
\<close>

theorem dwr_row_acceptance:
  "(row \<in> set (blocks ''<tr'' ''</tr>'' 0 html) \<and> tds = blocks ''<td'' ''</td>'' 0 row \<longrightarrow>
      (length tds < 6 \<longrightarrow> (\<forall>now. dwrRow sha1 rt now row = None))
    \<and> (stripTags (tds ! 0) = [] \<longrightarrow> (\<forall>now. dwrRow sha1 rt now row = None))
    \<and> (6 \<le> length tds \<and> stripTags (tds ! 0) \<noteq> [] \<and> stripTags (tds ! 1) \<noteq> []
         \<and> stripTags (tds ! 2) \<noteq> [] \<and> normalizeDate (stripTags (tds ! 5)) \<noteq> [] \<longrightarrow>
         (\<exists>e. (\<forall>now. dwrRow sha1 rt now row = Some (e\<lparr> first_seen_at := now \<rparr>))
             \<and> water_name e = stripTags (tds ! 0) \<and> county e = stripTags (tds ! 1)
             \<and> species e = stripTags (tds ! 2)
             \<and> date_stocked e = normalizeDate (stripTags (tds ! 5))
             \<and> (\<exists>e' \<in> set (parseDwrFishStockingHtml sha1 rt clock html). event_id e' = event_id e))))
   \<and> (\<forall>e \<in> set (parseDwrFishStockingHtml sha1 rt clock html).
        \<exists>row \<in> set (blocks ''<tr'' ''</tr>'' 0 html). \<exists>now. dwrRow sha1 rt now row = Some e)"
proof (intro conjI impI ballI allI)
  fix now
  assume "row \<in> set (blocks ''<tr'' ''</tr>'' 0 html) \<and> tds = blocks ''<td'' ''</td>'' 0 row"
    and "length tds < 6"
  then show "dwrRow sha1 rt now row = None" by (simp add: dwrRow_def)
next
  fix now
  assume r: "row \<in> set (blocks ''<tr'' ''</tr>'' 0 html) \<and> tds = blocks ''<td'' ''</td>'' 0 row"
    and w: "stripTags (tds ! 0) = []"
  show "dwrRow sha1 rt now row = None"
  proof (cases "length tds < 6")
    case True
    with r show ?thesis by (simp add: dwrRow_def)
  next
    case False
    then have "6 \<le> length (blocks ''<td'' ''</td>'' 0 row)" using r by simp
    from dwrRow_six[OF this] r w show ?thesis by (simp add: Let_def)
  qed
next
  assume r: "row \<in> set (blocks ''<tr'' ''</tr>'' 0 html) \<and> tds = blocks ''<td'' ''</td>'' 0 row"
    and a: "6 \<le> length tds \<and> stripTags (tds ! 0) \<noteq> [] \<and> stripTags (tds ! 1) \<noteq> []
         \<and> stripTags (tds ! 2) \<noteq> [] \<and> normalizeDate (stripTags (tds ! 5)) \<noteq> []"
  from r a have "6 \<le> length (blocks ''<td'' ''</td>'' 0 row)" by simp
  from dwrRow_six[OF this, of sha1 rt "[]"] r a
  obtain e where e: "dwrRow sha1 rt [] row = Some e"
    and f: "water_name e = stripTags (tds ! 0)" "county e = stripTags (tds ! 1)"
      "species e = stripTags (tds ! 2)" "date_stocked e = normalizeDate (stripTags (tds ! 5))"
    by (simp add: Let_def)
  from parseDwr_complete[OF _ e] r
  have "\<exists>e' \<in> set (parseDwrFishStockingHtml sha1 rt clock html). event_id e' = event_id e" by simp
  with dwrRow_clock[OF e] f
  show "\<exists>e. (\<forall>now. dwrRow sha1 rt now row = Some (e\<lparr> first_seen_at := now \<rparr>))
             \<and> water_name e = stripTags (tds ! 0) \<and> county e = stripTags (tds ! 1)
             \<and> species e = stripTags (tds ! 2)
             \<and> date_stocked e = normalizeDate (stripTags (tds ! 5))
             \<and> (\<exists>e' \<in> set (parseDwrFishStockingHtml sha1 rt clock html). event_id e' = event_id e)"
    by blast
next
  fix e assume "e \<in> set (parseDwrFishStockingHtml sha1 rt clock html)"
  then show "\<exists>row \<in> set (blocks ''<tr'' ''</tr>'' 0 html). \<exists>now. dwrRow sha1 rt now row = Some e"
    by (rule parseDwr_sound)
qed

theorem dwr_row_acceptance_witness:
  "(\<forall>now. dwrRow plain smallRuntime now fiveCellRow = None)
   \<and> (\<forall>now. dwrRow plain smallRuntime now noWaterRow = None)
   \<and> (\<exists>e. (\<forall>now. dwrRow plain smallRuntime now blueLakeRow = Some (e\<lparr> first_seen_at := now \<rparr>))
        \<and> water_name e = ''Blue Lake'' \<and> county e = ''Wasatch''
        \<and> species e = ''Rainbow Trout'' \<and> date_stocked e = ''2026-03-04''
        \<and> (\<exists>e' \<in> set (parseDwrFishStockingHtml plain smallRuntime noon threeRowPage).
              event_id e' = event_id e))"
proof (intro conjI)
  have "fiveCellRow \<in> set (blocks ''<tr'' ''</tr>'' 0 threeRowPage)
      \<and> blocks ''<td'' ''</td>'' 0 fiveCellRow = blocks ''<td'' ''</td>'' 0 fiveCellRow"
    by (simp add: threeRowPage_rows)
  moreover have "length (blocks ''<td'' ''</td>'' 0 fiveCellRow) < 6"
    by (simp add: fiveCellRow_cells)
  ultimately show "\<forall>now. dwrRow plain smallRuntime now fiveCellRow = None"
    using dwr_row_acceptance[of fiveCellRow threeRowPage "blocks ''<td'' ''</td>'' 0 fiveCellRow"
        plain smallRuntime noon]
    by blast
next
  let ?tds = "blocks ''<td'' ''</td>'' 0 noWaterRow"
  have "noWaterRow \<in> set (blocks ''<tr'' ''</tr>'' 0 threeRowPage) \<and> ?tds = ?tds"
    by (simp add: threeRowPage_rows)
  moreover have "stripTags (?tds ! 0) = []"
    using noWaterRow_text by (simp add: noWaterRow_cells)
  ultimately show "\<forall>now. dwrRow plain smallRuntime now noWaterRow = None"
    using dwr_row_acceptance[of noWaterRow threeRowPage ?tds plain smallRuntime noon]
    by blast
next
  let ?tds = "blocks ''<td'' ''</td>'' 0 blueLakeRow"
  have r: "blueLakeRow \<in> set (blocks ''<tr'' ''</tr>'' 0 threeRowPage) \<and> ?tds = ?tds"
    by (simp add: threeRowPage_rows)
  have c: "stripTags (?tds ! 0) = ''Blue Lake''" "stripTags (?tds ! 1) = ''Wasatch''"
    "stripTags (?tds ! 2) = ''Rainbow Trout''" "stripTags (?tds ! 5) = ''3/4/2026''"
    using blueLakeRow_text by (simp_all add: blueLakeRow_cells)
  have d: "normalizeDate ''3/4/2026'' = ''2026-03-04''"
    by (simp add: normalizeDate_def dateAt_def tryDate_def padStart2_def isDigit_def)
  have "6 \<le> length ?tds \<and> stripTags (?tds ! 0) \<noteq> [] \<and> stripTags (?tds ! 1) \<noteq> []
         \<and> stripTags (?tds ! 2) \<noteq> [] \<and> normalizeDate (stripTags (?tds ! 5)) \<noteq> []"
    unfolding c d by (simp add: blueLakeRow_cells)
  with r dwr_row_acceptance[of blueLakeRow threeRowPage ?tds plain smallRuntime noon]
  have "\<exists>e. (\<forall>now. dwrRow plain smallRuntime now blueLakeRow = Some (e\<lparr> first_seen_at := now \<rparr>))
             \<and> water_name e = stripTags (?tds ! 0) \<and> county e = stripTags (?tds ! 1)
             \<and> species e = stripTags (?tds ! 2)
             \<and> date_stocked e = normalizeDate (stripTags (?tds ! 5))
             \<and> (\<exists>e' \<in> set (parseDwrFishStockingHtml plain smallRuntime noon threeRowPage).
                   event_id e' = event_id e)"
    by blast
  then show "\<exists>e. (\<forall>now. dwrRow plain smallRuntime now blueLakeRow = Some (e\<lparr> first_seen_at := now \<rparr>))
        \<and> water_name e = ''Blue Lake'' \<and> county e = ''Wasatch''
        \<and> species e = ''Rainbow Trout'' \<and> date_stocked e = ''2026-03-04''
        \<and> (\<exists>e' \<in> set (parseDwrFishStockingHtml plain smallRuntime noon threeRowPage).
              event_id e' = event_id e)"
    unfolding c d .
qed

section \<open>Properties of the free-text extractor\<close>

lemma coTriple_Some:
  assumes "coTriple sha1 rt now l0 l1 l2 = Some e"
  shows "e = \<lparr> event_id = sha1 (coFingerprint (clean l0) (toUpperCase rt (clean l1)) ''TROUT''
                                 (coNormalizeDate (clean l2))),
               water_name = clean l0, county = toUpperCase rt (clean l1), species = ''TROUT'',
               quantity = None, avg_length = None,
               date_stocked = coNormalizeDate (clean l2), first_seen_at = now \<rparr>"
    and "clean l0 \<noteq> []" "clean l1 \<noteq> []" "clean l2 \<noteq> []"
    and "\<not> isBad rt (clean l0)" "\<not> isBad rt (clean l1)" "\<not> isBad rt (clean l2)"
    and "\<not> isDate (clean l0)" "\<not> isDate (clean l1)" "isDate (clean l2)"
  using assms unfolding coTriple_def Let_def by (auto split: if_splits)

lemma coLoop_sound:
  "e \<in> set (coLoop sha1 rt clock lines k i) \<Longrightarrow>
     \<exists>j k'. i \<le> j \<and> j + 2 < length lines
        \<and> coTriple sha1 rt (clock k') (lines ! j) (lines ! (j + 1)) (lines ! (j + 2)) = Some e"
proof (induction sha1 rt clock lines k i rule: coLoop.induct)
  case (1 sha1 rt clock lines k i)
  show ?case
  proof (cases "i + 2 < length lines")
    case False
    with "1.prems" show ?thesis by (simp add: coLoop.simps)
  next
    case True
    show ?thesis
    proof (cases "coTriple sha1 rt (clock k) (lines ! i) (lines ! (i + 1)) (lines ! (i + 2))")
      case None
      with True "1.prems" have "e \<in> set (coLoop sha1 rt clock lines k (i + 1))"
        by (simp add: coLoop.simps[of sha1 rt clock lines k i])
      from "1.IH"(1)[OF True None this] show ?thesis
        by (meson add_leD1 le_trans le_add1)
    next
      case (Some x)
      with True "1.prems" have "e = x \<or> e \<in> set (coLoop sha1 rt clock lines (Suc k) (i + 3))"
        by (simp add: coLoop.simps[of sha1 rt clock lines k i])
      then show ?thesis
      proof
        assume "e = x"
        with Some True show ?thesis by blast
      next
        assume "e \<in> set (coLoop sha1 rt clock lines (Suc k) (i + 3))"
        from "1.IH"(2)[OF True Some this] show ?thesis
          by (meson add_leD1 le_trans le_add1)
      qed
    qed
  qed
qed

lemma coEvents_sound:
  assumes "e \<in> set (coEvents sha1 rt clock section)"
  shows "\<exists>l0 l1 l2 now. coTriple sha1 rt now l0 l1 l2 = Some e"
proof -
  from assms have "e \<in> set (coLoop sha1 rt clock (coLines rt section) 0 0)"
    unfolding coEvents_def using dedupById_subset by blast
  from coLoop_sound[OF this] show ?thesis by blast
qed

lemma troutSection_lines:
  "coLines rt troutSection =
     [''Trout Stocking Report'', ''Blue Lake'', ''Wasatch'', ''3/4/2026'', ''Green Lake'',
      ''Summit'', ''3/5/2026'']"
  by code_simp

lemma blueLake_triple: "coTriple sha1 rt now ''Blue Lake'' ''Wasatch'' ''3/4/2026'' =
   Some \<lparr> event_id = sha1 ''CO|Blue Lake|WASATCH|TROUT|2026-03-04'',
               water_name = ''Blue Lake'', county = ''WASATCH'', species = ''TROUT'',
               quantity = None, avg_length = None,
               date_stocked = ''2026-03-04'', first_seen_at = now \<rparr>"
  by code_simp

lemma troutLines_walk:
  "coLoop sha1 rt clock troutLines 0 0 =
     [\<lparr> event_id = sha1 ''CO|Blue Lake|WASATCH|TROUT|2026-03-04'',
               water_name = ''Blue Lake'', county = ''WASATCH'', species = ''TROUT'',
               quantity = None, avg_length = None,
               date_stocked = ''2026-03-04'', first_seen_at = clock 0 \<rparr>,
      \<lparr> event_id = sha1 ''CO|Green Lake|SUMMIT|TROUT|2026-03-05'',
               water_name = ''Green Lake'', county = ''SUMMIT'', species = ''TROUT'',
               quantity = None, avg_length = None,
               date_stocked = ''2026-03-05'', first_seen_at = clock (Suc 0) \<rparr>]"
  by code_simp

lemma troutSection_walk:
  "coLoop sha1 rt clock (coLines rt troutSection) 0 0 =
     [\<lparr> event_id = sha1 ''CO|Blue Lake|WASATCH|TROUT|2026-03-04'',
               water_name = ''Blue Lake'', county = ''WASATCH'', species = ''TROUT'',
               quantity = None, avg_length = None,
               date_stocked = ''2026-03-04'', first_seen_at = clock 0 \<rparr>,
      \<lparr> event_id = sha1 ''CO|Green Lake|SUMMIT|TROUT|2026-03-05'',
               water_name = ''Green Lake'', county = ''SUMMIT'', species = ''TROUT'',
               quantity = None, avg_length = None,
               date_stocked = ''2026-03-05'', first_seen_at = clock (Suc 0) \<rparr>]"
  unfolding troutSection_lines by code_simp

lemma coEvents_troutSection:
  "coEvents plain rt clock troutSection =
     [\<lparr> event_id = ''CO|Blue Lake|WASATCH|TROUT|2026-03-04'',
               water_name = ''Blue Lake'', county = ''WASATCH'', species = ''TROUT'',
               quantity = None, avg_length = None,
               date_stocked = ''2026-03-04'', first_seen_at = clock 0 \<rparr>,
      \<lparr> event_id = ''CO|Green Lake|SUMMIT|TROUT|2026-03-05'',
               water_name = ''Green Lake'', county = ''SUMMIT'', species = ''TROUT'',
               quantity = None, avg_length = None,
               date_stocked = ''2026-03-05'', first_seen_at = clock (Suc 0) \<rparr>]"
  by (simp add: coEvents_def troutSection_walk plain_def)

lemma coEvents_fields:
  assumes "e \<in> set (coEvents sha1 rt clock section)"
  shows "event_id e = sha1 (coFingerprint (water_name e) (county e) (species e) (date_stocked e))"
    and "quantity e = None" "avg_length e = None"
proof -
  from coEvents_sound[OF assms] obtain l0 l1 l2 now where
    "coTriple sha1 rt now l0 l1 l2 = Some e" by blast
  from coTriple_Some(1)[OF this]
  show "event_id e = sha1 (coFingerprint (water_name e) (county e) (species e) (date_stocked e))"
    and "quantity e = None" "avg_length e = None"
    by simp_all
qed

lemma slidingWindow_short: "length ls < 3 \<Longrightarrow> slidingWindow sha1 rt clock k ls = []"
  by (induction sha1 rt clock k ls rule: slidingWindow.induct) auto

lemma drop_three:
  assumes "i + 2 < length lines"
  shows "drop i lines = lines ! i # lines ! (i + 1) # lines ! (i + 2) # drop (i + 3) lines"
proof -
  from assms have "drop i lines = lines ! i # drop (Suc i) lines"
    by (simp add: Cons_nth_drop_Suc)
  also from assms have "drop (Suc i) lines = lines ! (i + 1) # drop (Suc (Suc i)) lines"
    by (simp add: Cons_nth_drop_Suc)
  also from assms have "drop (Suc (Suc i)) lines = lines ! (i + 2) # drop (i + 3) lines"
    using Cons_nth_drop_Suc[of "i + 2" lines] by (simp add: numeral_3_eq_3)
  finally show ?thesis .
qed

lemma coLoop_slidingWindow:
  "coLoop sha1 rt clock lines k i = slidingWindow sha1 rt clock k (drop i lines)"
proof (induction sha1 rt clock lines k i rule: coLoop.induct)
  case (1 sha1 rt clock lines k i)
  show ?case
  proof (cases "i + 2 < length lines")
    case False
    then have "length (drop i lines) < 3" by simp
    from slidingWindow_short[OF this] False show ?thesis
      by (simp add: coLoop.simps[of sha1 rt clock lines k i])
  next
    case True
    note d = drop_three[OF True]
    show ?thesis
    proof (cases "coTriple sha1 rt (clock k) (lines ! i) (lines ! (i + 1)) (lines ! (i + 2))")
      case None
      from True have "drop (i + 1) lines = lines ! (i + 1) # lines ! (i + 2) # drop (i + 3) lines"
        using d by (metis drop_Suc_Cons drop_drop Suc_eq_plus1 add.commute drop0)
      with "1.IH"(1)[OF True None] None True d show ?thesis
        by (simp add: coLoop.simps[of sha1 rt clock lines k i])
    next
      case (Some e)
      with "1.IH"(2)[OF True Some] True d show ?thesis
        by (simp add: coLoop.simps[of sha1 rt clock lines k i])
    qed
  qed
qed

section \<open>Dates of the events\<close>







section \<open>Casing of county and species\<close>

lemma caseMap_ascii:
  "list_all isAscii s \<Longrightarrow> caseMap tbl run pre 0 s = map tbl s"
  by (induction s arbitrary: pre) simp_all

lemma toUpperCase_ascii: "list_all isAscii s \<Longrightarrow> toUpperCase rt s = map upperChar s"
  by (simp add: toUpperCase_def caseMap_ascii)

lemma upperChar_not_lower: "\<not> isLower (upperChar c)"
  by (simp add: upperChar_def isLower_def)

lemma coEvents_region:
  assumes "e \<in> set (coEvents sha1 rt clock sect)"
  shows "species e = ''TROUT''
    \<and> (\<exists>j. j + 2 < length (coLines rt sect)
          \<and> county e = toUpperCase rt (trim (coLines rt sect ! (j + 1))))"
proof -
  from assms have "e \<in> set (coLoop sha1 rt clock (coLines rt sect) 0 0)"
    unfolding coEvents_def using dedupById_subset by blast
  from coLoop_sound[OF this] obtain j k' where j: "j + 2 < length (coLines rt sect)"
    and t: "coTriple sha1 rt (clock k') (coLines rt sect ! j) (coLines rt sect ! (j + 1))
              (coLines rt sect ! (j + 2)) = Some e"
    by blast
  from coTriple_Some(1)[OF t] have "species e = ''TROUT''"
    and "county e = toUpperCase rt (trim (coLines rt sect ! (j + 1)))"
    by (simp_all add: clean_def)
  with j show ?thesis by blast
qed

text \<open>
  Claim C4, as the code has it. Every event of the free-text extractor has the species
  \<open>TROUT\<close> and, as its county, the upper-cased form of a region line of the section: the
  line after the water line, trimmed and passed through \<open>toUpperCase\<close>. The tabular
  extractor does not change the case: the county and the species of each of its events are
  the text of the second and third cell of a row, with the markup stripped and the white
  space collapsed, in the casing of the document. The matcher upper-cases and trims the
  values it compares, so two events whose counties, species and water names agree after
  that match the same subscriptions. On ASCII text \<open>toUpperCase\<close> is the mapping of the 26
  letters and leaves no lower-case letter; a letter beyond ASCII is mapped by the runtime,
  so the region line \<open>Ca\<close>, \<open>n\<close> with tilde, \<open>on\<close> becomes \<open>CA\<close>, the runtime's capital of
  that letter, \<open>ON\<close>.
\<close>

theorem casing_of_events:
  "(\<forall>e \<in> set (coEvents sha1 rt clock sect).
       species e = ''TROUT''
       \<and> (\<exists>j. j + 2 < length (coLines rt sect)
             \<and> county e = toUpperCase rt (trim (coLines rt sect ! (j + 1)))))
   \<and> (\<forall>e \<in> set (parseDwrFishStockingHtml sha1 rt clock html).
       \<exists>row \<in> set (blocks ''<tr'' ''</tr>'' 0 html).
          county e = stripTags (blocks ''<td'' ''</td>'' 0 row ! 1)
          \<and> species e = stripTags (blocks ''<td'' ''</td>'' 0 row ! 2))
   \<and> (trim (toUpperCase rt (county e1)) = trim (toUpperCase rt (county e2))
        \<and> trim (toUpperCase rt (species e1)) = trim (toUpperCase rt (species e2))
        \<and> trim (toUpperCase rt (water_name e1)) = trim (toUpperCase rt (water_name e2))
        \<longrightarrow> matchesSubscription rt e1 sub = matchesSubscription rt e2 sub)
   \<and> (list_all isAscii s \<longrightarrow>
        toUpperCase rt s = map upperChar s \<and> (\<forall>c \<in> set (toUpperCase rt s). \<not> isLower c))
   \<and> toUpperCase rt (''Ca'' @ [CHR 0xC3, CHR 0xB1] @ ''on'')
       = ''CA'' @ upperRun rt ''Ca'' [CHR 0xC3, CHR 0xB1] ''on'' @ ''ON''"
proof (intro conjI)
  show "\<forall>e \<in> set (coEvents sha1 rt clock sect).
       species e = ''TROUT''
       \<and> (\<exists>j. j + 2 < length (coLines rt sect)
             \<and> county e = toUpperCase rt (trim (coLines rt sect ! (j + 1))))"
    using coEvents_region by blast
next
  show "\<forall>e \<in> set (parseDwrFishStockingHtml sha1 rt clock html).
       \<exists>row \<in> set (blocks ''<tr'' ''</tr>'' 0 html).
          county e = stripTags (blocks ''<td'' ''</td>'' 0 row ! 1)
          \<and> species e = stripTags (blocks ''<td'' ''</td>'' 0 row ! 2)"
  proof
    fix e assume "e \<in> set (parseDwrFishStockingHtml sha1 rt clock html)"
    from parseDwr_sound[OF this] obtain row now where
      r: "row \<in> set (blocks ''<tr'' ''</tr>'' 0 html)" and d: "dwrRow sha1 rt now row = Some e"
      by blast
    from dwrRow_fields(3,4)[OF d] r
    show "\<exists>row \<in> set (blocks ''<tr'' ''</tr>'' 0 html).
          county e = stripTags (blocks ''<td'' ''</td>'' 0 row ! 1)
          \<and> species e = stripTags (blocks ''<td'' ''</td>'' 0 row ! 2)" by blast
  qed
next
  show "trim (toUpperCase rt (county e1)) = trim (toUpperCase rt (county e2))
        \<and> trim (toUpperCase rt (species e1)) = trim (toUpperCase rt (species e2))
        \<and> trim (toUpperCase rt (water_name e1)) = trim (toUpperCase rt (water_name e2))
        \<longrightarrow> matchesSubscription rt e1 sub = matchesSubscription rt e2 sub"
    by (simp add: matchesSubscription_def Let_def)
next
  show "list_all isAscii s \<longrightarrow>
        toUpperCase rt s = map upperChar s \<and> (\<forall>c \<in> set (toUpperCase rt s). \<not> isLower c)"
    by (auto simp: toUpperCase_ascii upperChar_not_lower)
next
  show "toUpperCase rt (''Ca'' @ [CHR 0xC3, CHR 0xB1] @ ''on'')
       = ''CA'' @ upperRun rt ''Ca'' [CHR 0xC3, CHR 0xB1] ''on'' @ ''ON''"
    by code_simp
qed

theorem casing_of_events_witness:
  "species (hd (coEvents plain smallRuntime noon troutSection)) = ''TROUT''
   \<and> county (hd (coEvents plain smallRuntime noon troutSection)) = ''WASATCH''
   \<and> (\<exists>j. j + 2 < length (coLines smallRuntime troutSection)
         \<and> county (hd (coEvents plain smallRuntime noon troutSection))
             = toUpperCase smallRuntime (trim (coLines smallRuntime troutSection ! (j + 1))))
   \<and> map county (parseDwrFishStockingHtml plain smallRuntime noon blueLakeRow) = [''Wasatch'']
   \<and> (\<exists>row \<in> set (blocks ''<tr'' ''</tr>'' 0 blueLakeRow).
         ''Wasatch'' = stripTags (blocks ''<td'' ''</td>'' 0 row ! 1)
         \<and> ''Rainbow Trout'' = stripTags (blocks ''<td'' ''</td>'' 0 row ! 2))
   \<and> matchesSubscription smallRuntime
        (hd (parseDwrFishStockingHtml plain smallRuntime noon blueLakeRow)) tok1
      = matchesSubscription smallRuntime
          ((hd (parseDwrFishStockingHtml plain smallRuntime noon blueLakeRow))
             \<lparr> county := ''WASATCH'', species := ''RAINBOW TROUT'' \<rparr>) tok1
   \<and> toUpperCase smallRuntime ''Wasatch'' = ''WASATCH''"
proof -
  let ?e = "\<lparr> event_id = plain ''Blue Lake|Wasatch|Rainbow Trout|1200|10.5|2026-03-04'',
        water_name = ''Blue Lake'', county = ''Wasatch'', species = ''Rainbow Trout'',
        quantity = Some 1200, avg_length = Some (10, ''5''),
        date_stocked = ''2026-03-04'', first_seen_at = noon 0 \<rparr>"
  let ?c = "\<lparr> event_id = ''CO|Blue Lake|WASATCH|TROUT|2026-03-04'',
        water_name = ''Blue Lake'', county = ''WASATCH'', species = ''TROUT'',
        quantity = None, avg_length = None,
        date_stocked = ''2026-03-04'', first_seen_at = noon 0 \<rparr>"
  let ?u = "?e\<lparr> county := ''WASATCH'', species := ''RAINBOW TROUT'' \<rparr>"
  note inst = casing_of_events[of plain smallRuntime noon troutSection blueLakeRow ?e ?u tok1
      "''Wasatch''"]
  have p: "parseDwrFishStockingHtml plain smallRuntime noon blueLakeRow = [?e]"
    by (rule parseDwr_blueLakeRow)
  then have m: "?e \<in> set (parseDwrFishStockingHtml plain smallRuntime noon blueLakeRow)" by simp
  have hp: "hd (parseDwrFishStockingHtml plain smallRuntime noon blueLakeRow) = ?e"
    unfolding p by simp
  have hc: "hd (coEvents plain smallRuntime noon troutSection) = ?c"
    by (simp add: coEvents_troutSection)
  have mc: "?c \<in> set (coEvents plain smallRuntime noon troutSection)"
    by (simp add: coEvents_troutSection)
  from bspec[OF inst[THEN conjunct1] mc]
  have 1: "species ?c = ''TROUT''"
    and 2: "\<exists>j. j + 2 < length (coLines smallRuntime troutSection)
         \<and> county ?c = toUpperCase smallRuntime (trim (coLines smallRuntime troutSection ! (j + 1)))"
    by (rule conjunct1, rule conjunct2)
  from bspec[OF inst[THEN conjunct2, THEN conjunct1] m]
  have 3: "\<exists>row \<in> set (blocks ''<tr'' ''</tr>'' 0 blueLakeRow).
         ''Wasatch'' = stripTags (blocks ''<td'' ''</td>'' 0 row ! 1)
         \<and> ''Rainbow Trout'' = stripTags (blocks ''<td'' ''</td>'' 0 row ! 2)" by simp
  have 4: "map county (parseDwrFishStockingHtml plain smallRuntime noon blueLakeRow) = [''Wasatch'']"
    unfolding p by simp
  have 5: "county ?c = ''WASATCH''" by simp
  have "trim (toUpperCase smallRuntime (county ?e)) = trim (toUpperCase smallRuntime (county ?u))
      \<and> trim (toUpperCase smallRuntime (species ?e)) = trim (toUpperCase smallRuntime (species ?u))
      \<and> trim (toUpperCase smallRuntime (water_name ?e))
          = trim (toUpperCase smallRuntime (water_name ?u))"
    by code_simp
  from inst[THEN conjunct2, THEN conjunct2, THEN conjunct1, THEN mp, OF this]
  have 6: "matchesSubscription smallRuntime ?e tok1 = matchesSubscription smallRuntime ?u tok1" .
  have a: "list_all isAscii ''Wasatch''" by code_simp
  from inst[THEN conjunct2, THEN conjunct2, THEN conjunct2, THEN conjunct1, THEN mp, OF a]
  have 7: "toUpperCase smallRuntime ''Wasatch'' = map upperChar ''Wasatch''" by (rule conjunct1)
  have 8: "map upperChar ''Wasatch'' = ''WASATCH''" by code_simp
  show ?thesis unfolding hc hp using 1 2 3 4 5 6 7[unfolded 8] by (intro conjI)
qed

text \<open>
  Claim C4 as stated fails for the tabular extractor: the row with the county cell
  \<open>Wasatch\<close> and the species cell \<open>Rainbow Trout\<close> yields an event with exactly these
  values, which are not their upper-cased forms.
\<close>

theorem tabular_county_not_uppercased:
  "parseDwrFishStockingHtml plain smallRuntime noon blueLakeRow =
     [\<lparr> event_id = ''Blue Lake|Wasatch|Rainbow Trout|1200|10.5|2026-03-04'',
        water_name = ''Blue Lake'', county = ''Wasatch'', species = ''Rainbow Trout'',
        quantity = Some 1200, avg_length = Some (10, ''5''),
        date_stocked = ''2026-03-04'', first_seen_at = ''2026-03-04T12:00:00.000Z'' \<rparr>]
   \<and> toUpperCase smallRuntime ''Wasatch'' = ''WASATCH'' \<and> ''Wasatch'' \<noteq> ''WASATCH''
   \<and> toUpperCase smallRuntime ''Rainbow Trout'' = ''RAINBOW TROUT''
   \<and> ''Rainbow Trout'' \<noteq> ''RAINBOW TROUT''"
proof (intro conjI)
  show "parseDwrFishStockingHtml plain smallRuntime noon blueLakeRow =
     [\<lparr> event_id = ''Blue Lake|Wasatch|Rainbow Trout|1200|10.5|2026-03-04'',
        water_name = ''Blue Lake'', county = ''Wasatch'', species = ''Rainbow Trout'',
        quantity = Some 1200, avg_length = Some (10, ''5''),
        date_stocked = ''2026-03-04'', first_seen_at = ''2026-03-04T12:00:00.000Z'' \<rparr>]"
    by (simp add: parseDwr_blueLakeRow plain_def noon_def)
  show "toUpperCase smallRuntime ''Wasatch'' = ''WASATCH''" by code_simp
  show "toUpperCase smallRuntime ''Rainbow Trout'' = ''RAINBOW TROUT''" by code_simp
  show "''Wasatch'' \<noteq> ''WASATCH''" by simp
  show "''Rainbow Trout'' \<noteq> ''RAINBOW TROUT''" by simp
qed

section \<open>Identifiers\<close>

lemma parseDwr_fields:
  assumes "e \<in> set (parseDwrFishStockingHtml sha1 rt clock html)"
  shows "event_id e = sha1 (dwrFingerprint rt (water_name e) (county e) (species e) (quantity e)
                             (avg_length e) (date_stocked e))"
    and "case avg_length e of None \<Rightarrow> True | Some l \<Rightarrow> canonical l"
proof -
  from parseDwr_sound[OF assms] obtain row now where d: "dwrRow sha1 rt now row = Some e" by blast
  from dwrRow_fields(8)[OF d]
  show "event_id e = sha1 (dwrFingerprint rt (water_name e) (county e) (species e) (quantity e)
                             (avg_length e) (date_stocked e))" .
  from dwrRow_canonical[OF d]
  show "case avg_length e of None \<Rightarrow> True | Some l \<Rightarrow> canonical l" .
qed

lemma show_optional_inj:
  assumes "exact a" "exact b"
    "(case a of None \<Rightarrow> '''' | Some x \<Rightarrow> showNumber rt w x)
       = (case b of None \<Rightarrow> '''' | Some x \<Rightarrow> showNumber rt w x)"
  shows "a = b"
proof (cases a)
  case None
  show ?thesis
  proof (cases b)
    case None
    with \<open>a = None\<close> show ?thesis by simp
  next
    case (Some y)
    with assms(2) have "inRange y" by (simp add: exact_def)
    from showNumber_nonempty[OF this, of rt w] assms(3) None Some show ?thesis by simp
  qed
next
  case (Some x)
  with assms(1) have rx: "inRange x" by (simp add: exact_def)
  show ?thesis
  proof (cases b)
    case None
    from showNumber_nonempty[OF rx, of rt w] assms(3) None Some show ?thesis by simp
  next
    case (Some y)
    with assms \<open>a = Some x\<close> have "exact (Some x)" "exact (Some y)"
      "showNumber rt w x = showNumber rt w y" by simp_all
    from showNumber_inj[OF this] Some \<open>a = Some x\<close> show ?thesis by simp
  qed
qed

lemma dwrFingerprint_whole:
  "dwrFingerprint rt w c s q l d =
     w @ ''|'' @ c @ ''|'' @ s @ ''|''
     @ (case whole q of None \<Rightarrow> '''' | Some x \<Rightarrow> showNumber rt True x) @ ''|''
     @ (case l of None \<Rightarrow> '''' | Some x \<Rightarrow> showNumber rt False x) @ ''|'' @ d"
  by (simp add: dwrFingerprint_def whole_def split: option.splits)

lemma whole_inj: "whole q = whole q' \<Longrightarrow> q = q'"
  by (auto simp: whole_def split: option.splits)

lemma dwrFingerprint_delimiter:
  "dwrFingerprint rt ''a|b'' ''c'' s q l d = dwrFingerprint rt ''a'' ''b|c'' s q l d"
  by (simp add: dwrFingerprint_def)

lemma beyond_examples:
  "showNumber rt True (9007199254740993, []) = showNum rt ''9007199254740993''"
  "showNumber rt True (9007199254740992, []) = showNum rt ''9007199254740992''"
  "showNumber rt False (0, ''0000001'') = showNum rt ''0.0000001''"
  by (simp_all add: showNumber_def inRange_examples numeralText_def digitsOf.simps digitChar_def)

text \<open>
  Claim C1, as the code has it. The id of every event of the tabular extractor is the hash
  of the six values water name, county, species, quantity (empty when absent), average
  length (empty when absent) and normalized date, in this order, joined with \<open>|\<close>, the
  numbers written as a template literal writes them. The id of every event of the
  free-text extractor is the hash of \<open>CO\<close>, water name, county, species and normalized
  date, joined with \<open>|\<close>: the source tag comes first and there are no places for quantity
  and length, which are always absent there. With either extractor two events with the
  same six values have the same id, whatever the page and the time of the extraction. Two
  fingerprints of the same extractor that differ in exactly one of the values are
  different strings, where for a quantity or a length the two values are absent or decimals
  of the exact range (at most 15 digits, zero or at least 0.000001): such a number is
  written as its decimal. Whether the two ids then differ is a matter of the hash, which
  is a parameter here. Beyond the exact range the text of a number is the runtime's
  (\<open>1e-7\<close> for the cell \<open>0.0000001\<close>), and two quantities that the runtime writes alike (it
  reads \<open>2^53 + 1\<close> as \<open>2^53\<close>) give one fingerprint. Values that differ in two places can
  give one fingerprint too, since a value may itself contain the delimiter
  (\<open>dwrFingerprint_delimiter\<close>).
\<close>

theorem event_id_fingerprint:
  "(\<forall>e \<in> set (parseDwrFishStockingHtml sha1 rt clock html).
       event_id e = sha1 (water_name e @ ''|'' @ county e @ ''|'' @ species e @ ''|''
                          @ (case quantity e of None \<Rightarrow> ''''
                             | Some q \<Rightarrow> showNumber rt True (q, [])) @ ''|''
                          @ (case avg_length e of None \<Rightarrow> ''''
                             | Some l \<Rightarrow> showNumber rt False l) @ ''|''
                          @ date_stocked e)
       \<and> (case avg_length e of None \<Rightarrow> True | Some l \<Rightarrow> canonical l))
   \<and> (\<forall>e \<in> set (coEvents sha1 rt clock sect).
       event_id e = sha1 (''CO|'' @ water_name e @ ''|'' @ county e @ ''|'' @ species e @ ''|''
                          @ date_stocked e)
       \<and> quantity e = None \<and> avg_length e = None)
   \<and> (\<forall>e1 \<in> set (parseDwrFishStockingHtml sha1 rt clock html).
       \<forall>e2 \<in> set (parseDwrFishStockingHtml sha1 rt clock' html').
         sixFields e1 = sixFields e2 \<longrightarrow> event_id e1 = event_id e2)
   \<and> (\<forall>e1 \<in> set (coEvents sha1 rt clock sect).
       \<forall>e2 \<in> set (coEvents sha1 rt clock' sect').
         sixFields e1 = sixFields e2 \<longrightarrow> event_id e1 = event_id e2)
   \<and> (w \<noteq> w' \<longrightarrow> dwrFingerprint rt w c s q l d \<noteq> dwrFingerprint rt w' c s q l d)
   \<and> (c \<noteq> c' \<longrightarrow> dwrFingerprint rt w c s q l d \<noteq> dwrFingerprint rt w c' s q l d)
   \<and> (s \<noteq> s' \<longrightarrow> dwrFingerprint rt w c s q l d \<noteq> dwrFingerprint rt w c s' q l d)
   \<and> (q \<noteq> q' \<and> exact (whole q) \<and> exact (whole q') \<longrightarrow>
        dwrFingerprint rt w c s q l d \<noteq> dwrFingerprint rt w c s q' l d)
   \<and> (l \<noteq> l' \<and> exact l \<and> exact l' \<longrightarrow>
        dwrFingerprint rt w c s q l d \<noteq> dwrFingerprint rt w c s q l' d)
   \<and> (d \<noteq> d' \<longrightarrow> dwrFingerprint rt w c s q l d \<noteq> dwrFingerprint rt w c s q l d')
   \<and> (w \<noteq> w' \<longrightarrow> coFingerprint w c s d \<noteq> coFingerprint w' c s d)
   \<and> (c \<noteq> c' \<longrightarrow> coFingerprint w c s d \<noteq> coFingerprint w c' s d)
   \<and> (s \<noteq> s' \<longrightarrow> coFingerprint w c s d \<noteq> coFingerprint w c s' d)
   \<and> (d \<noteq> d' \<longrightarrow> coFingerprint w c s d \<noteq> coFingerprint w c s d')
   \<and> (inRange x \<longrightarrow> showNumber rt wh x = decimalText x)
   \<and> showNumber rt False (0, ''0000001'') = showNum rt ''0.0000001''
   \<and> (showNum rt ''9007199254740993'' = showNum rt ''9007199254740992'' \<longrightarrow>
        dwrFingerprint rt w c s (Some 9007199254740993) l d
          = dwrFingerprint rt w c s (Some 9007199254740992) l d)"
proof (intro conjI)
  show "\<forall>e \<in> set (parseDwrFishStockingHtml sha1 rt clock html).
       event_id e = sha1 (water_name e @ ''|'' @ county e @ ''|'' @ species e @ ''|''
                          @ (case quantity e of None \<Rightarrow> ''''
                             | Some q \<Rightarrow> showNumber rt True (q, [])) @ ''|''
                          @ (case avg_length e of None \<Rightarrow> ''''
                             | Some l \<Rightarrow> showNumber rt False l) @ ''|''
                          @ date_stocked e)
       \<and> (case avg_length e of None \<Rightarrow> True | Some l \<Rightarrow> canonical l)"
    using parseDwr_fields by (simp add: dwrFingerprint_def)
  show "\<forall>e \<in> set (coEvents sha1 rt clock sect).
       event_id e = sha1 (''CO|'' @ water_name e @ ''|'' @ county e @ ''|'' @ species e @ ''|''
                          @ date_stocked e)
       \<and> quantity e = None \<and> avg_length e = None"
    using coEvents_fields by (simp add: coFingerprint_def)
  show "\<forall>e1 \<in> set (parseDwrFishStockingHtml sha1 rt clock html).
       \<forall>e2 \<in> set (parseDwrFishStockingHtml sha1 rt clock' html').
         sixFields e1 = sixFields e2 \<longrightarrow> event_id e1 = event_id e2"
    using parseDwr_fields(1) by (simp add: sixFields_def)
  show "\<forall>e1 \<in> set (coEvents sha1 rt clock sect).
       \<forall>e2 \<in> set (coEvents sha1 rt clock' sect').
         sixFields e1 = sixFields e2 \<longrightarrow> event_id e1 = event_id e2"
    using coEvents_fields(1) by (simp add: sixFields_def)
  show "w \<noteq> w' \<longrightarrow> dwrFingerprint rt w c s q l d \<noteq> dwrFingerprint rt w' c s q l d"
    by (simp add: dwrFingerprint_def)
  show "c \<noteq> c' \<longrightarrow> dwrFingerprint rt w c s q l d \<noteq> dwrFingerprint rt w c' s q l d"
    by (simp add: dwrFingerprint_def)
  show "s \<noteq> s' \<longrightarrow> dwrFingerprint rt w c s q l d \<noteq> dwrFingerprint rt w c s' q l d"
    by (simp add: dwrFingerprint_def)
  show "q \<noteq> q' \<and> exact (whole q) \<and> exact (whole q') \<longrightarrow>
        dwrFingerprint rt w c s q l d \<noteq> dwrFingerprint rt w c s q' l d"
    using show_optional_inj[of "whole q" "whole q'" rt True] whole_inj[of q q']
    by (auto simp: dwrFingerprint_whole)
  show "l \<noteq> l' \<and> exact l \<and> exact l' \<longrightarrow>
        dwrFingerprint rt w c s q l d \<noteq> dwrFingerprint rt w c s q l' d"
    using show_optional_inj[of l l' rt False] by (auto simp: dwrFingerprint_whole)
  show "d \<noteq> d' \<longrightarrow> dwrFingerprint rt w c s q l d \<noteq> dwrFingerprint rt w c s q l d'"
    by (simp add: dwrFingerprint_def)
  show "w \<noteq> w' \<longrightarrow> coFingerprint w c s d \<noteq> coFingerprint w' c s d"
    by (simp add: coFingerprint_def)
  show "c \<noteq> c' \<longrightarrow> coFingerprint w c s d \<noteq> coFingerprint w c' s d"
    by (simp add: coFingerprint_def)
  show "s \<noteq> s' \<longrightarrow> coFingerprint w c s d \<noteq> coFingerprint w c s' d"
    by (simp add: coFingerprint_def)
  show "d \<noteq> d' \<longrightarrow> coFingerprint w c s d \<noteq> coFingerprint w c s d'"
    by (simp add: coFingerprint_def)
  show "inRange x \<longrightarrow> showNumber rt wh x = decimalText x"
    by (simp add: showNumber_exact)
  show "showNumber rt False (0, ''0000001'') = showNum rt ''0.0000001''"
    by (rule beyond_examples)
  show "showNum rt ''9007199254740993'' = showNum rt ''9007199254740992'' \<longrightarrow>
        dwrFingerprint rt w c s (Some 9007199254740993) l d
          = dwrFingerprint rt w c s (Some 9007199254740992) l d"
    by (simp add: dwrFingerprint_def beyond_examples)
qed

theorem event_id_fingerprint_witness:
  "event_id (hd (parseDwrFishStockingHtml plain smallRuntime noon blueLakeRow))
     = plain ''Blue Lake|Wasatch|Rainbow Trout|1200|10.5|2026-03-04''
   \<and> event_id (hd (coEvents plain smallRuntime noon troutSection))
     = plain ''CO|Blue Lake|WASATCH|TROUT|2026-03-04''
   \<and> first_seen_at (hd (parseDwrFishStockingHtml plain smallRuntime noon blueLakeRow))
       \<noteq> first_seen_at (hd (parseDwrFishStockingHtml plain smallRuntime nextDay threeRowPage))
   \<and> event_id (hd (parseDwrFishStockingHtml plain smallRuntime noon blueLakeRow))
       = event_id (hd (parseDwrFishStockingHtml plain smallRuntime nextDay threeRowPage))
   \<and> dwrFingerprint smallRuntime ''Blue Lake'' ''Wasatch'' ''Rainbow Trout'' (Some 1200)
         (Some (10, ''5'')) ''2026-03-04''
       \<noteq> dwrFingerprint smallRuntime ''Blue Lake'' ''Wasatch'' ''Rainbow Trout'' (Some 1250)
         (Some (10, ''5'')) ''2026-03-04''
   \<and> showNumber smallRuntime False (10, ''5'') = ''10.5''
   \<and> dwrFingerprint smallRuntime ''Blue Lake'' ''Wasatch'' ''Rainbow Trout''
         (Some 9007199254740993) (Some (10, ''5'')) ''2026-03-04''
       = ''Blue Lake|Wasatch|Rainbow Trout|9007199254740993|10.5|2026-03-04''"
proof -
  let ?b = "\<lparr> event_id = plain ''Blue Lake|Wasatch|Rainbow Trout|1200|10.5|2026-03-04'',
        water_name = ''Blue Lake'', county = ''Wasatch'', species = ''Rainbow Trout'',
        quantity = Some 1200, avg_length = Some (10, ''5''),
        date_stocked = ''2026-03-04'', first_seen_at = noon 0 \<rparr>"
  let ?b' = "\<lparr> event_id = plain ''Blue Lake|Wasatch|Rainbow Trout|1200|10.5|2026-03-04'',
        water_name = ''Blue Lake'', county = ''Wasatch'', species = ''Rainbow Trout'',
        quantity = Some 1200, avg_length = Some (10, ''5''),
        date_stocked = ''2026-03-04'', first_seen_at = nextDay 0 \<rparr>"
  let ?c = "\<lparr> event_id = ''CO|Blue Lake|WASATCH|TROUT|2026-03-04'',
               water_name = ''Blue Lake'', county = ''WASATCH'', species = ''TROUT'',
               quantity = None, avg_length = None,
               date_stocked = ''2026-03-04'', first_seen_at = noon 0 \<rparr>"
  note inst = event_id_fingerprint[of plain smallRuntime noon blueLakeRow troutSection nextDay
      threeRowPage troutSection "''Blue Lake''" "''Red Lake''" "''Wasatch''" "''Rainbow Trout''"
      "Some 1200" "Some (10, ''5'')" "''2026-03-04''" "''Summit''" "''Brown Trout''" "Some 1250"
      "Some (11, [])" "''2026-03-05''" "(10, ''5'')" False]
  have b: "?b \<in> set (parseDwrFishStockingHtml plain smallRuntime noon blueLakeRow)"
    by (simp add: parseDwr_blueLakeRow)
  have b': "?b' \<in> set (parseDwrFishStockingHtml plain smallRuntime nextDay threeRowPage)"
    by (simp add: parseDwr_threeRowPage)
  have c: "?c \<in> set (coEvents plain smallRuntime noon troutSection)"
    by (simp add: coEvents_troutSection)
  have r: "inRange (10, ''5'')" by (rule inRange_examples)
  from inst[THEN conjunct2, THEN conjunct2, THEN conjunct2, THEN conjunct2, THEN conjunct2,
      THEN conjunct2, THEN conjunct2, THEN conjunct2, THEN conjunct2, THEN conjunct2,
      THEN conjunct2, THEN conjunct2, THEN conjunct2, THEN conjunct2, THEN conjunct1,
      THEN mp, OF r]
  have "showNumber smallRuntime False (10, ''5'') = decimalText (10, ''5'')" .
  then have 6: "showNumber smallRuntime False (10, ''5'') = ''10.5''"
    by (simp add: decimalText_def digitsOf.simps digitChar_def)
  have q: "showNumber smallRuntime True (1200, []) = ''1200''"
    by (simp add: showNumber_exact inRange_examples decimalText_def digitsOf.simps digitChar_def)
  from bspec[OF inst[THEN conjunct1] b]
  have 1: "event_id ?b = plain ''Blue Lake|Wasatch|Rainbow Trout|1200|10.5|2026-03-04''"
    by (simp add: 6 q)
  from bspec[OF inst[THEN conjunct2, THEN conjunct1] c]
  have 2: "event_id ?c = plain ''CO|Blue Lake|WASATCH|TROUT|2026-03-04''" by simp
  have "Some (1200::nat) \<noteq> Some 1250 \<and> exact (whole (Some 1200)) \<and> exact (whole (Some 1250))"
    by (simp add: exact_whole_iff inRange_examples)
  with inst[THEN conjunct2, THEN conjunct2, THEN conjunct2, THEN conjunct2, THEN conjunct2,
      THEN conjunct2, THEN conjunct2, THEN conjunct1]
  have 3: "dwrFingerprint smallRuntime ''Blue Lake'' ''Wasatch'' ''Rainbow Trout'' (Some 1200)
         (Some (10, ''5'')) ''2026-03-04''
       \<noteq> dwrFingerprint smallRuntime ''Blue Lake'' ''Wasatch'' ''Rainbow Trout'' (Some 1250)
         (Some (10, ''5'')) ''2026-03-04''" by (rule mp)
  have "sixFields ?b = sixFields ?b'" by (simp add: sixFields_def)
  with bspec[OF bspec[OF inst[THEN conjunct2, THEN conjunct2, THEN conjunct1] b] b']
  have 4: "event_id ?b = event_id ?b'" by (rule mp)
  have 5: "first_seen_at ?b \<noteq> first_seen_at ?b'" by (simp add: noon_def nextDay_def)
  have 7: "dwrFingerprint smallRuntime ''Blue Lake'' ''Wasatch'' ''Rainbow Trout''
         (Some 9007199254740993) (Some (10, ''5'')) ''2026-03-04''
       = ''Blue Lake|Wasatch|Rainbow Trout|9007199254740993|10.5|2026-03-04''"
    by (simp add: dwrFingerprint_def beyond_examples 6) (simp add: smallRuntime_def)
  have hb: "hd (parseDwrFishStockingHtml plain smallRuntime noon blueLakeRow) = ?b"
    by (simp add: parseDwr_blueLakeRow)
  have hb': "hd (parseDwrFishStockingHtml plain smallRuntime nextDay threeRowPage) = ?b'"
    by (simp add: parseDwr_threeRowPage)
  have hc: "hd (coEvents plain smallRuntime noon troutSection) = ?c"
    by (simp add: coEvents_troutSection)
  show ?thesis unfolding hb hb' hc using 1 2 3 4 5 6 7 by (intro conjI)
qed

text \<open>
  Claim C1 as stated fails for the free-text extractor. With a hash that returns its input,
  the id shows the text that is hashed: for the first triple of the example section it is
  \<open>CO|Blue Lake|WASATCH|TROUT|2026-03-04\<close>, and the six values of that event joined in the
  stated order give \<open>Blue Lake|WASATCH|TROUT|||2026-03-04\<close>.
\<close>

theorem free_text_id_not_six_field_hash:
  "coEvents plain smallRuntime noon troutSection =
     [\<lparr> event_id = ''CO|Blue Lake|WASATCH|TROUT|2026-03-04'',
               water_name = ''Blue Lake'', county = ''WASATCH'', species = ''TROUT'',
               quantity = None, avg_length = None,
               date_stocked = ''2026-03-04'', first_seen_at = ''2026-03-04T12:00:00.000Z'' \<rparr>,
      \<lparr> event_id = ''CO|Green Lake|SUMMIT|TROUT|2026-03-05'',
               water_name = ''Green Lake'', county = ''SUMMIT'', species = ''TROUT'',
               quantity = None, avg_length = None,
               date_stocked = ''2026-03-05'', first_seen_at = ''2026-03-04T12:00:00.000Z'' \<rparr>]
   \<and> plain (dwrFingerprint smallRuntime ''Blue Lake'' ''WASATCH'' ''TROUT'' None None
         ''2026-03-04'')
       = ''Blue Lake|WASATCH|TROUT|||2026-03-04''
   \<and> ''CO|Blue Lake|WASATCH|TROUT|2026-03-04'' \<noteq> ''Blue Lake|WASATCH|TROUT|||2026-03-04''"
  by (simp add: coEvents_troutSection noon_def plain_def dwrFingerprint_def)

section \<open>The walk over the candidate lines\<close>

text \<open>
  Claim C5. In the free-text extractor a triple of consecutive lines (water, region, date)
  is accepted only if none of the three (trimmed) lines is a header or footer label, the
  first two are not date-shaped and the third is. At index \<open>i\<close> the walk, if the triple at
  \<open>i\<close> is accepted, emits its event and continues at \<open>i + 3\<close>; if it is rejected, continues
  at \<open>i + 1\<close>; and stops when fewer than three lines are left. So the loop computes the
  sliding window of the specification over the lines from \<open>i\<close> on, and every event it emits
  comes from an accepted triple of consecutive lines. For the seven example lines the walk
  yields exactly two events, Blue Lake on 2026-03-04 and Green Lake on 2026-03-05; the whole
  extractor yields the same two from a section that starts with the heading and holds these
  lines (there the label line is removed before the walk and the heading is rejected in
  it), provided the hash separates the two fingerprints.
\<close>

theorem coLoop_walk:
  "(coTriple sha1 rt now l0 l1 l2 \<noteq> None \<longrightarrow>
      \<not> isBad rt (clean l0) \<and> \<not> isBad rt (clean l1) \<and> \<not> isBad rt (clean l2)
      \<and> \<not> isDate (clean l0) \<and> \<not> isDate (clean l1) \<and> isDate (clean l2))
   \<and> (i + 2 < length lines
        \<and> coTriple sha1 rt (clock k) (lines ! i) (lines ! (i + 1)) (lines ! (i + 2)) = Some e \<longrightarrow>
      coLoop sha1 rt clock lines k i = e # coLoop sha1 rt clock lines (Suc k) (i + 3))
   \<and> (i + 2 < length lines
        \<and> coTriple sha1 rt (clock k) (lines ! i) (lines ! (i + 1)) (lines ! (i + 2)) = None \<longrightarrow>
      coLoop sha1 rt clock lines k i = coLoop sha1 rt clock lines k (i + 1))
   \<and> (length lines \<le> i + 2 \<longrightarrow> coLoop sha1 rt clock lines k i = [])
   \<and> coLoop sha1 rt clock lines k i = slidingWindow sha1 rt clock k (drop i lines)
   \<and> (\<forall>x \<in> set (coLoop sha1 rt clock lines 0 0).
        \<exists>j k'. j + 2 < length lines
          \<and> coTriple sha1 rt (clock k') (lines ! j) (lines ! (j + 1)) (lines ! (j + 2)) = Some x)
   \<and> map date_stocked (coLoop sha1 rt clock troutLines 0 0) = [''2026-03-04'', ''2026-03-05'']
   \<and> map water_name (coLoop sha1 rt clock troutLines 0 0) = [''Blue Lake'', ''Green Lake'']
   \<and> map date_stocked (coLoop sha1 rt clock (coLines rt troutSection) 0 0)
        = [''2026-03-04'', ''2026-03-05'']
   \<and> (sha1 ''CO|Blue Lake|WASATCH|TROUT|2026-03-04'' \<noteq> sha1 ''CO|Green Lake|SUMMIT|TROUT|2026-03-05''
        \<longrightarrow> map date_stocked (coEvents sha1 rt clock troutSection) = [''2026-03-04'', ''2026-03-05''])"
proof (intro conjI)
  show "coTriple sha1 rt now l0 l1 l2 \<noteq> None \<longrightarrow>
      \<not> isBad rt (clean l0) \<and> \<not> isBad rt (clean l1) \<and> \<not> isBad rt (clean l2)
      \<and> \<not> isDate (clean l0) \<and> \<not> isDate (clean l1) \<and> isDate (clean l2)"
    using coTriple_Some(5-10)[of sha1 rt now l0 l1 l2] by blast
  show "i + 2 < length lines
        \<and> coTriple sha1 rt (clock k) (lines ! i) (lines ! (i + 1)) (lines ! (i + 2)) = Some e \<longrightarrow>
      coLoop sha1 rt clock lines k i = e # coLoop sha1 rt clock lines (Suc k) (i + 3)"
    by (simp add: coLoop.simps[of sha1 rt clock lines k i])
  show "i + 2 < length lines
        \<and> coTriple sha1 rt (clock k) (lines ! i) (lines ! (i + 1)) (lines ! (i + 2)) = None \<longrightarrow>
      coLoop sha1 rt clock lines k i = coLoop sha1 rt clock lines k (i + 1)"
    by (simp add: coLoop.simps[of sha1 rt clock lines k i])
  show "length lines \<le> i + 2 \<longrightarrow> coLoop sha1 rt clock lines k i = []"
    by (simp add: coLoop.simps[of sha1 rt clock lines k i])
  show "coLoop sha1 rt clock lines k i = slidingWindow sha1 rt clock k (drop i lines)"
    by (rule coLoop_slidingWindow)
  show "\<forall>x \<in> set (coLoop sha1 rt clock lines 0 0).
        \<exists>j k'. j + 2 < length lines
          \<and> coTriple sha1 rt (clock k') (lines ! j) (lines ! (j + 1)) (lines ! (j + 2)) = Some x"
    using coLoop_sound by blast
  show "map date_stocked (coLoop sha1 rt clock troutLines 0 0) = [''2026-03-04'', ''2026-03-05'']"
    by (simp add: troutLines_walk)
  show "map water_name (coLoop sha1 rt clock troutLines 0 0) = [''Blue Lake'', ''Green Lake'']"
    by (simp add: troutLines_walk)
  show "map date_stocked (coLoop sha1 rt clock (coLines rt troutSection) 0 0)
        = [''2026-03-04'', ''2026-03-05'']"
    by (simp add: troutSection_walk)
  show "sha1 ''CO|Blue Lake|WASATCH|TROUT|2026-03-04'' \<noteq> sha1 ''CO|Green Lake|SUMMIT|TROUT|2026-03-05''
        \<longrightarrow> map date_stocked (coEvents sha1 rt clock troutSection) = [''2026-03-04'', ''2026-03-05'']"
    by (simp add: coEvents_def troutSection_walk)
qed

theorem coLoop_walk_witness:
  "coLoop plain smallRuntime noon troutLines 0 0
     = \<lparr> event_id = plain ''CO|Blue Lake|WASATCH|TROUT|2026-03-04'',
         water_name = ''Blue Lake'', county = ''WASATCH'', species = ''TROUT'',
         quantity = None, avg_length = None,
         date_stocked = ''2026-03-04'', first_seen_at = noon 0 \<rparr>
       # coLoop plain smallRuntime noon troutLines (Suc 0) (0 + 3)
   \<and> coLoop plain smallRuntime noon troutLines (Suc 0) 3 = coLoop plain smallRuntime noon troutLines (Suc 0) (3 + 1)
   \<and> isDate (clean ''3/4/2026'') \<and> \<not> isDate (clean ''Wasatch'')
   \<and> map date_stocked (coEvents plain smallRuntime noon troutSection) = [''2026-03-04'', ''2026-03-05'']"
proof -
  let ?e = "\<lparr> event_id = plain ''CO|Blue Lake|WASATCH|TROUT|2026-03-04'',
         water_name = ''Blue Lake'', county = ''WASATCH'', species = ''TROUT'',
         quantity = None, avg_length = None,
         date_stocked = ''2026-03-04'', first_seen_at = noon 0 \<rparr>"
  have n: "troutLines ! 0 = ''Blue Lake''" "troutLines ! (0 + 1) = ''Wasatch''"
    "troutLines ! (0 + 2) = ''3/4/2026''" "troutLines ! 3 = ''Body of Water''"
    "troutLines ! (3 + 1) = ''Green Lake''" "troutLines ! (3 + 2) = ''Summit''"
    by (simp_all add: troutLines_def)
  have len: "0 + 2 < length troutLines" "3 + 2 < length troutLines"
    by (simp_all add: troutLines_def)
  have a: "coTriple plain smallRuntime (noon 0) ''Blue Lake'' ''Wasatch'' ''3/4/2026'' = Some ?e"
    by (rule blueLake_triple)
  have r: "coTriple plain smallRuntime (noon (Suc 0)) ''Body of Water'' ''Green Lake'' ''Summit'' = None"
    by code_simp
  note i0 = coLoop_walk[of plain smallRuntime "noon 0" "''Blue Lake''" "''Wasatch''" "''3/4/2026''" 0
      troutLines noon 0 ?e]
  note i3 = coLoop_walk[of plain smallRuntime "noon 0" "''Blue Lake''" "''Wasatch''" "''3/4/2026''" 3
      troutLines noon "Suc 0" ?e]
  from a have "coTriple plain smallRuntime (noon 0) ''Blue Lake'' ''Wasatch'' ''3/4/2026'' \<noteq> None" by simp
  from i0[THEN conjunct1, THEN mp, OF this]
  have 3: "isDate (clean ''3/4/2026'') \<and> \<not> isDate (clean ''Wasatch'')" by (intro conjI) simp_all
  from len(1) a have "0 + 2 < length troutLines
      \<and> coTriple plain smallRuntime (noon 0) (troutLines ! 0) (troutLines ! (0 + 1)) (troutLines ! (0 + 2)) = Some ?e"
    unfolding n by (intro conjI)
  from i0[THEN conjunct2, THEN conjunct1, THEN mp, OF this]
  have 1: "coLoop plain smallRuntime noon troutLines 0 0 = ?e # coLoop plain smallRuntime noon troutLines (Suc 0) (0 + 3)" .
  from len(2) r have "3 + 2 < length troutLines
      \<and> coTriple plain smallRuntime (noon (Suc 0)) (troutLines ! 3) (troutLines ! (3 + 1)) (troutLines ! (3 + 2)) = None"
    unfolding n by (intro conjI)
  from i3[THEN conjunct2, THEN conjunct2, THEN conjunct1, THEN mp, OF this]
  have 2: "coLoop plain smallRuntime noon troutLines (Suc 0) 3 = coLoop plain smallRuntime noon troutLines (Suc 0) (3 + 1)" .
  have "plain ''CO|Blue Lake|WASATCH|TROUT|2026-03-04'' \<noteq> plain ''CO|Green Lake|SUMMIT|TROUT|2026-03-05''"
    by (simp add: plain_def)
  from i0[THEN conjunct2, THEN conjunct2, THEN conjunct2, THEN conjunct2, THEN conjunct2,
      THEN conjunct2, THEN conjunct2, THEN conjunct2, THEN conjunct2, THEN mp, OF this]
  have 4: "map date_stocked (coEvents plain smallRuntime noon troutSection) = [''2026-03-04'', ''2026-03-05'']" .
  from 1 2 3 4 show ?thesis by (intro conjI) simp_all
qed

section \<open>Properties of the record store\<close>

lemma tx_noop:
  "event_id ` set evs \<subseteq> event_id ` set tbl \<Longrightarrow> tx tbl n evs = (tbl, n)"
  by (induction evs arbitrary: tbl n) (auto simp: insert_run_def)

lemma tx_ids:
  "tx tbl n evs = (tbl', n') \<Longrightarrow> event_id ` set tbl' = event_id ` set tbl \<union> event_id ` set evs"
proof (induction evs arbitrary: tbl n)
  case Nil
  then show ?case by simp
next
  case (Cons e evs)
  obtain t1 c1 where ir: "insert_run tbl e = (t1, c1)" by (cases "insert_run tbl e")
  with Cons.prems have "tx t1 (if 0 < c1 then n + 1 else n) evs = (tbl', n')" by simp
  from Cons.IH[OF this] have "event_id ` set tbl' = event_id ` set t1 \<union> event_id ` set evs" .
  moreover from ir have "event_id ` set t1 = insert (event_id e) (event_id ` set tbl)"
    by (auto simp: insert_run_def split: if_splits)
  ultimately show ?case by auto
qed

lemma tx_count:
  "tx tbl n evs = (tbl', n') \<Longrightarrow> n' = n + (length tbl' - length tbl) \<and> length tbl \<le> length tbl'
      \<and> take (length tbl) tbl' = tbl"
proof (induction evs arbitrary: tbl n)
  case Nil
  then show ?case by simp
next
  case (Cons e evs)
  obtain t1 c1 where ir: "insert_run tbl e = (t1, c1)" by (cases "insert_run tbl e")
  with Cons.prems have t: "tx t1 (if 0 < c1 then n + 1 else n) evs = (tbl', n')" by simp
  note ih = Cons.IH[OF t]
  from ir have "(t1 = tbl \<and> c1 = 0) \<or> (t1 = tbl @ [e] \<and> c1 = 1)"
    by (auto simp: insert_run_def split: if_splits)
  then show ?case
  proof
    assume "t1 = tbl \<and> c1 = 0"
    with ih show ?thesis by simp
  next
    assume a: "t1 = tbl @ [e] \<and> c1 = 1"
    with ih have "n' = n + 1 + (length tbl' - (length tbl + 1))" "length tbl + 1 \<le> length tbl'"
      "take (length tbl + 1) tbl' = tbl @ [e]" by simp_all
    moreover from this have "take (length tbl) tbl' = tbl"
      by (metis Suc_eq_plus1 butlast_snoc butlast_take diff_add_inverse2)
    ultimately show ?thesis by simp
  qed
qed

lemma insertNewEvents_count:
  assumes "insertNewEvents d evs = (r, d')"
  shows "insertedCount r = length (stock_events d') - length (stock_events d)"
    and "take (length (stock_events d)) (stock_events d') = stock_events d"
proof -
  obtain tbl n where t: "tx (stock_events d) 0 evs = (tbl, n)"
    by (cases "tx (stock_events d) 0 evs")
  with assms have "insertedCount r = n" "stock_events d' = tbl"
    by (auto simp: insertNewEvents_def)
  with tx_count[OF t]
  show "insertedCount r = length (stock_events d') - length (stock_events d)"
    and "take (length (stock_events d)) (stock_events d') = stock_events d"
    by simp_all
qed

text \<open>
  Claim C7. Inserting the same event (same id) by two separate calls of \<open>insertNewEvents\<close>,
  into a store that did not hold the id, gives \<open>insertedCount\<close> 1 for the first call and 0
  for the second, 1 in total; the second call raises no error and leaves the store as the
  first call left it, so the store holds exactly one record with that id, and it is the
  record of the first call even when the second event differs in its other fields. More
  generally, a batch all of whose ids were in an earlier batch inserts nothing, returns no
  new record and does not change the store.
\<close>

theorem insert_twice:
  "(event_id e \<notin> event_id ` set (stock_events d) \<and> event_id e' = event_id e \<longrightarrow>
      (case insertNewEvents d [e] of (r1, d1) \<Rightarrow>
         (case insertNewEvents d1 [e'] of (r2, d2) \<Rightarrow>
            insertedCount r1 = 1 \<and> insertedCount r2 = 0
            \<and> insertedCount r1 + insertedCount r2 = 1
            \<and> d2 = d1
            \<and> filter (\<lambda>x. event_id x = event_id e) (stock_events d2) = [e])))
   \<and> (event_id ` set evs' \<subseteq> event_id ` set evs \<longrightarrow>
      (case insertNewEvents d evs of (r1, d1) \<Rightarrow>
         (case insertNewEvents d1 evs' of (r2, d2) \<Rightarrow>
            insertedCount r2 = 0 \<and> newOnes r2 = [] \<and> d2 = d1)))"
proof (intro conjI impI)
  assume a: "event_id e \<notin> event_id ` set (stock_events d) \<and> event_id e' = event_id e"
  then have "filter (\<lambda>x. event_id x = event_id e) (stock_events d) = []"
    unfolding filter_empty_conv by (metis imageI)
  with a show "case insertNewEvents d [e] of (r1, d1) \<Rightarrow>
         (case insertNewEvents d1 [e'] of (r2, d2) \<Rightarrow>
            insertedCount r1 = 1 \<and> insertedCount r2 = 0
            \<and> insertedCount r1 + insertedCount r2 = 1
            \<and> d2 = d1
            \<and> filter (\<lambda>x. event_id x = event_id e) (stock_events d2) = [e])"
    by (simp add: insertNewEvents_def insert_run_def)
next
  assume a: "event_id ` set evs' \<subseteq> event_id ` set evs"
  obtain tbl n where t: "tx (stock_events d) 0 evs = (tbl, n)" by (cases "tx (stock_events d) 0 evs")
  from tx_ids[OF t] a have "event_id ` set evs' \<subseteq> event_id ` set tbl" by auto
  from tx_noop[OF this] have "tx tbl 0 evs' = (tbl, 0)" .
  with t show "case insertNewEvents d evs of (r1, d1) \<Rightarrow>
         (case insertNewEvents d1 evs' of (r2, d2) \<Rightarrow>
            insertedCount r2 = 0 \<and> newOnes r2 = [] \<and> d2 = d1)"
    by (simp add: insertNewEvents_def)
qed

theorem insert_twice_witness:
  "(case insertNewEvents \<lparr> stock_events = [], subscriptions = [] \<rparr>
       [\<lparr> event_id = ''a1'', water_name = ''Blue Lake'', county = ''WASATCH'', species = ''RAINBOW'',
          quantity = Some 1200, avg_length = Some (10, ''5''), date_stocked = ''2026-03-04'',
          first_seen_at = ''2026-03-04T12:00:00.000Z'' \<rparr>] of
      (r1, d1) \<Rightarrow>
        (case insertNewEvents d1
           [\<lparr> event_id = ''a1'', water_name = ''Blue Lake'', county = ''WASATCH'', species = ''RAINBOW'',
              quantity = Some 1200, avg_length = Some (10, ''5''), date_stocked = ''2026-03-04'',
              first_seen_at = ''2026-03-05T12:00:00.000Z'' \<rparr>] of
          (r2, d2) \<Rightarrow>
            insertedCount r1 + insertedCount r2 = 1
            \<and> newOnes r2 = []
            \<and> map first_seen_at (stock_events d2) = [''2026-03-04T12:00:00.000Z'']))"
proof -
  let ?d = "\<lparr> stock_events = [], subscriptions = [] \<rparr>"
  let ?e = "\<lparr> event_id = ''a1'', water_name = ''Blue Lake'', county = ''WASATCH'', species = ''RAINBOW'',
          quantity = Some 1200, avg_length = Some (10, ''5''), date_stocked = ''2026-03-04'',
          first_seen_at = ''2026-03-04T12:00:00.000Z'' \<rparr>"
  let ?e' = "\<lparr> event_id = ''a1'', water_name = ''Blue Lake'', county = ''WASATCH'', species = ''RAINBOW'',
              quantity = Some 1200, avg_length = Some (10, ''5''), date_stocked = ''2026-03-04'',
              first_seen_at = ''2026-03-05T12:00:00.000Z'' \<rparr>"
  note inst = insert_twice[of ?e ?d ?e' "[?e']" "[?e]"]
  have h: "event_id ?e \<notin> event_id ` set (stock_events ?d) \<and> event_id ?e' = event_id ?e" by simp
  have h': "event_id ` set [?e'] \<subseteq> event_id ` set [?e]" by simp
  obtain r1 d1 where 1: "insertNewEvents ?d [?e] = (r1, d1)" by (cases "insertNewEvents ?d [?e]")
  obtain r2 d2 where 2: "insertNewEvents d1 [?e'] = (r2, d2)" by (cases "insertNewEvents d1 [?e']")
  from inst[THEN conjunct1, THEN mp, OF h] 1 2
  have a: "insertedCount r1 + insertedCount r2 = 1 \<and> d2 = d1" by simp
  from inst[THEN conjunct2, THEN mp, OF h'] 1 2
  have b: "newOnes r2 = []" by simp
  from 1 have "map first_seen_at (stock_events d1) = [''2026-03-04T12:00:00.000Z'']"
    by (auto simp: insertNewEvents_def insert_run_def)
  with a b show ?thesis using 1 2 by simp
qed

text \<open>
  What \<open>newOnes\<close> is when the clock and the store agree: if every record in the store was
  first seen before every event of the batch, the records returned are exactly the records
  that the call inserted.
\<close>

lemma tx_appends:
  "\<exists>news. tx tbl n evs = (tbl @ news, n + length news) \<and> set news \<subseteq> set evs"
proof (induction evs arbitrary: tbl n)
  case Nil
  then show ?case by simp
next
  case (Cons e evs)
  show ?case
  proof (cases "event_id e \<in> event_id ` set tbl")
    case True
    from Cons.IH[of tbl n] obtain news where
      "tx tbl n evs = (tbl @ news, n + length news)" "set news \<subseteq> set evs" by blast
    with True show ?thesis by (auto simp: insert_run_def)
  next
    case False
    from Cons.IH[of "tbl @ [e]" "n + 1"] obtain news where
      "tx (tbl @ [e]) (n + 1) evs = ((tbl @ [e]) @ news, n + 1 + length news)"
      "set news \<subseteq> set evs" by blast
    with False have "tx tbl n (e # evs) = (tbl @ (e # news), n + length (e # news))
        \<and> set (e # news) \<subseteq> set (e # evs)"
      by (auto simp: insert_run_def)
    then show ?thesis by blast
  qed
qed

lemma set_insertDesc: "set (insertDesc e xs) = insert e (set xs)"
  by (induction xs) auto

lemma length_insertDesc: "length (insertDesc e xs) = Suc (length xs)"
  by (induction xs) auto

lemma set_orderByFirstSeenDesc: "set (orderByFirstSeenDesc xs) = set xs"
  by (induction xs) (simp_all add: orderByFirstSeenDesc_def set_insertDesc)

lemma length_orderByFirstSeenDesc: "length (orderByFirstSeenDesc xs) = length xs"
  by (induction xs) (simp_all add: orderByFirstSeenDesc_def length_insertDesc)

lemma insertDesc_past:
  "\<forall>y \<in> set later. first_seen_at x < first_seen_at y \<Longrightarrow>
     insertDesc x (later @ rest) = later @ insertDesc x rest"
  by (induction later) auto

lemma foldr_insertDesc_past:
  "\<forall>x \<in> set old. \<forall>y \<in> set later. first_seen_at x < first_seen_at y \<Longrightarrow>
     foldr insertDesc old (later @ rest) = later @ foldr insertDesc old rest"
  by (induction old) (simp_all add: insertDesc_past)

lemma orderByFirstSeenDesc_append:
  assumes "\<forall>x \<in> set old. \<forall>y \<in> set news. first_seen_at x < first_seen_at y"
  shows "orderByFirstSeenDesc (old @ news)
           = orderByFirstSeenDesc news @ orderByFirstSeenDesc old"
proof -
  from assms have "\<forall>x \<in> set old. \<forall>y \<in> set (orderByFirstSeenDesc news).
      first_seen_at x < first_seen_at y"
    by (simp add: set_orderByFirstSeenDesc)
  from foldr_insertDesc_past[OF this, of "[]"] show ?thesis
    by (simp add: orderByFirstSeenDesc_def)
qed

lemma newOnes_when_later:
  assumes "\<forall>x \<in> set (stock_events d). \<forall>e \<in> set evs. first_seen_at x < first_seen_at e"
    and "insertNewEvents d evs = (r, d')"
  shows "set (newOnes r) = set (drop (length (stock_events d)) (stock_events d'))"
    and "length (newOnes r) = insertedCount r"
proof -
  from tx_appends[of "stock_events d" 0 evs] obtain news where
    t: "tx (stock_events d) 0 evs = (stock_events d @ news, length news)"
    and s: "set news \<subseteq> set evs" by auto
  from assms(1) s have "\<forall>x \<in> set (stock_events d). \<forall>y \<in> set news.
      first_seen_at x < first_seen_at y" by blast
  from orderByFirstSeenDesc_append[OF this]
  have "take (length news) (orderByFirstSeenDesc (stock_events d @ news))
      = orderByFirstSeenDesc news"
    by (simp add: length_orderByFirstSeenDesc)
  with assms(2) t have n: "newOnes r = orderByFirstSeenDesc news"
    and c: "insertedCount r = length news" and d': "stock_events d' = stock_events d @ news"
    by (auto simp: insertNewEvents_def)
  show "set (newOnes r) = set (drop (length (stock_events d)) (stock_events d'))"
    by (simp add: n d' set_orderByFirstSeenDesc)
  show "length (newOnes r) = insertedCount r"
    by (simp add: n c length_orderByFirstSeenDesc)
qed

text \<open>
  Claim C3, evaluated where it fails. The store holds one record, first seen on
  2026-03-05; the batch holds one event with a new id whose \<open>first_seen_at\<close> is
  2026-03-04 (it was parsed before the stored record was written by another poller, or
  the clock was set back). \<open>insertNewEvents\<close> inserts the event and reports
  \<open>insertedCount = 1\<close>, which is the number of records added (\<open>insertNewEvents_count\<close>), but
  \<open>newOnes\<close>, the record with the latest \<open>first_seen_at\<close> in the whole table, is the record
  that was stored before the call, not the one just inserted.
\<close>

theorem insertNewEvents_returns_stored_record:
  "insertNewEvents
     \<lparr> stock_events =
         [\<lparr> event_id = ''x'', water_name = ''Green Lake'', county = ''SUMMIT'', species = ''BROWN'',
            quantity = None, avg_length = None, date_stocked = ''2026-03-05'',
            first_seen_at = ''2026-03-05T00:00:00.000Z'' \<rparr>],
       subscriptions = [] \<rparr>
     [\<lparr> event_id = ''y'', water_name = ''Blue Lake'', county = ''WASATCH'', species = ''RAINBOW'',
        quantity = Some 1200, avg_length = Some (10, ''5''), date_stocked = ''2026-03-04'',
        first_seen_at = ''2026-03-04T00:00:00.000Z'' \<rparr>]
   = (\<lparr> insertedCount = 1,
        newOnes =
          [\<lparr> event_id = ''x'', water_name = ''Green Lake'', county = ''SUMMIT'', species = ''BROWN'',
             quantity = None, avg_length = None, date_stocked = ''2026-03-05'',
             first_seen_at = ''2026-03-05T00:00:00.000Z'' \<rparr>] \<rparr>,
      \<lparr> stock_events =
         [\<lparr> event_id = ''x'', water_name = ''Green Lake'', county = ''SUMMIT'', species = ''BROWN'',
            quantity = None, avg_length = None, date_stocked = ''2026-03-05'',
            first_seen_at = ''2026-03-05T00:00:00.000Z'' \<rparr>,
          \<lparr> event_id = ''y'', water_name = ''Blue Lake'', county = ''WASATCH'', species = ''RAINBOW'',
            quantity = Some 1200, avg_length = Some (10, ''5''), date_stocked = ''2026-03-04'',
            first_seen_at = ''2026-03-04T00:00:00.000Z'' \<rparr>],
        subscriptions = [] \<rparr>)"
  by (simp add: insertNewEvents_def insert_run_def orderByFirstSeenDesc_def)

section \<open>Properties of the matcher\<close>

text \<open>
  Claim C6. For every event and every subscription, \<open>matchesSubscription\<close> is true exactly
  when all three dimensions (county, species, water) match. A dimension with an empty filter
  list matches every event; a non-empty one matches exactly when the event's value,
  upper-cased and trimmed, is equal to one of the filter values, each turned into a string,
  upper-cased and trimmed. Equality is of whole strings: with \<open>counties = ["WASATCH"]\<close> an
  event of county \<open>SUMMIT\<close> does not match, and neither a longer filter value
  (\<open>WASATCH COUNTY\<close>) nor a shorter one (\<open>WAS\<close>) matches the county \<open>WASATCH\<close>. Trimming
  removes a no-break space as it removes a space, so the filter value \<open>wasatch\<close> with a
  space before and a no-break space after it matches the county \<open>Wasatch\<close>; a filter value
  that is not a string is compared as \<open>String\<close> writes it, so \<open>true\<close> matches the county
  \<open>true\<close>; and where the runtime maps the letter \<open>n\<close> with tilde to its capital, the county
  with the small letter matches the filter value with the capital.
\<close>

theorem matchesSubscription_spec:
  "(matchesSubscription rt ev sub \<longleftrightarrow>
      (counties sub = []
       \<or> trim (toUpperCase rt (county ev))
           \<in> (\<lambda>x. trim (toUpperCase rt (stringOf rt x))) ` set (counties sub))
    \<and> (species_sub sub = []
       \<or> trim (toUpperCase rt (species ev))
           \<in> (\<lambda>x. trim (toUpperCase rt (stringOf rt x))) ` set (species_sub sub))
    \<and> (waters sub = []
       \<or> trim (toUpperCase rt (water_name ev))
           \<in> (\<lambda>x. trim (toUpperCase rt (stringOf rt x))) ` set (waters sub)))
   \<and> stringOf rt (JStr s) = s
   \<and> \<not> matchesSubscription rt (ev\<lparr> county := ''SUMMIT'' \<rparr>)
         \<lparr> sub_id = n, expo_push_token = tok, counties = [JStr ''WASATCH''],
           species_sub = [], waters = [] \<rparr>
   \<and> \<not> matchesSubscription rt (ev\<lparr> county := ''WASATCH'' \<rparr>)
         \<lparr> sub_id = n, expo_push_token = tok,
           counties = [JStr ''WASATCH COUNTY'', JStr ''WAS''], species_sub = [], waters = [] \<rparr>
   \<and> matchesSubscription rt (ev\<lparr> county := ''Wasatch'' \<rparr>)
         \<lparr> sub_id = n, expo_push_token = tok,
           counties = [JStr ('' wasatch'' @ [CHR 0xC2, CHR 0xA0])],
           species_sub = [], waters = [] \<rparr>
   \<and> matchesSubscription rt (ev\<lparr> county := ''true'' \<rparr>)
         \<lparr> sub_id = n, expo_push_token = tok, counties = [JBool True],
           species_sub = [], waters = [] \<rparr>
   \<and> (upperRun rt ''Ca'' [CHR 0xC3, CHR 0xB1] ''on'' = [CHR 0xC3, CHR 0x91]
        \<and> upperRun rt ''CA'' [CHR 0xC3, CHR 0x91] ''ON'' = [CHR 0xC3, CHR 0x91] \<longrightarrow>
        matchesSubscription rt (ev\<lparr> county := ''Ca'' @ [CHR 0xC3, CHR 0xB1] @ ''on'' \<rparr>)
          \<lparr> sub_id = n, expo_push_token = tok,
            counties = [JStr (''CA'' @ [CHR 0xC3, CHR 0x91] @ ''ON'')],
            species_sub = [], waters = [] \<rparr>)"
proof (intro conjI)
  show "matchesSubscription rt ev sub \<longleftrightarrow>
      (counties sub = []
       \<or> trim (toUpperCase rt (county ev))
           \<in> (\<lambda>x. trim (toUpperCase rt (stringOf rt x))) ` set (counties sub))
    \<and> (species_sub sub = []
       \<or> trim (toUpperCase rt (species ev))
           \<in> (\<lambda>x. trim (toUpperCase rt (stringOf rt x))) ` set (species_sub sub))
    \<and> (waters sub = []
       \<or> trim (toUpperCase rt (water_name ev))
           \<in> (\<lambda>x. trim (toUpperCase rt (stringOf rt x))) ` set (waters sub))"
    by (simp add: matchesSubscription_def Let_def)
next
  show "stringOf rt (JStr s) = s" by simp
next
  have "trim (toUpperCase rt ''SUMMIT'') \<noteq> trim (toUpperCase rt ''WASATCH'')" by code_simp
  then show "\<not> matchesSubscription rt (ev\<lparr> county := ''SUMMIT'' \<rparr>)
         \<lparr> sub_id = n, expo_push_token = tok, counties = [JStr ''WASATCH''],
           species_sub = [], waters = [] \<rparr>"
    by (simp add: matchesSubscription_def Let_def)
next
  have "trim (toUpperCase rt ''WASATCH'') \<noteq> trim (toUpperCase rt ''WASATCH COUNTY'')"
    "trim (toUpperCase rt ''WASATCH'') \<noteq> trim (toUpperCase rt ''WAS'')" by code_simp+
  then show "\<not> matchesSubscription rt (ev\<lparr> county := ''WASATCH'' \<rparr>)
         \<lparr> sub_id = n, expo_push_token = tok,
           counties = [JStr ''WASATCH COUNTY'', JStr ''WAS''], species_sub = [], waters = [] \<rparr>"
    by (simp add: matchesSubscription_def Let_def)
next
  have "trim (toUpperCase rt ''Wasatch'')
      = trim (toUpperCase rt ('' wasatch'' @ [CHR 0xC2, CHR 0xA0]))"
    by code_simp
  then show "matchesSubscription rt (ev\<lparr> county := ''Wasatch'' \<rparr>)
         \<lparr> sub_id = n, expo_push_token = tok,
           counties = [JStr ('' wasatch'' @ [CHR 0xC2, CHR 0xA0])],
           species_sub = [], waters = [] \<rparr>"
    by (simp add: matchesSubscription_def Let_def)
next
  show "matchesSubscription rt (ev\<lparr> county := ''true'' \<rparr>)
         \<lparr> sub_id = n, expo_push_token = tok, counties = [JBool True],
           species_sub = [], waters = [] \<rparr>"
    by (simp add: matchesSubscription_def Let_def)
next
  show "upperRun rt ''Ca'' [CHR 0xC3, CHR 0xB1] ''on'' = [CHR 0xC3, CHR 0x91]
        \<and> upperRun rt ''CA'' [CHR 0xC3, CHR 0x91] ''ON'' = [CHR 0xC3, CHR 0x91] \<longrightarrow>
        matchesSubscription rt (ev\<lparr> county := ''Ca'' @ [CHR 0xC3, CHR 0xB1] @ ''on'' \<rparr>)
          \<lparr> sub_id = n, expo_push_token = tok,
            counties = [JStr (''CA'' @ [CHR 0xC3, CHR 0x91] @ ''ON'')],
            species_sub = [], waters = [] \<rparr>"
  proof
    assume a: "upperRun rt ''Ca'' [CHR 0xC3, CHR 0xB1] ''on'' = [CHR 0xC3, CHR 0x91]
        \<and> upperRun rt ''CA'' [CHR 0xC3, CHR 0x91] ''ON'' = [CHR 0xC3, CHR 0x91]"
    have 1: "toUpperCase rt (''Ca'' @ [CHR 0xC3, CHR 0xB1] @ ''on'')
        = ''CA'' @ upperRun rt ''Ca'' [CHR 0xC3, CHR 0xB1] ''on'' @ ''ON''"
      by code_simp
    have 2: "toUpperCase rt (''CA'' @ [CHR 0xC3, CHR 0x91] @ ''ON'')
        = ''CA'' @ upperRun rt ''CA'' [CHR 0xC3, CHR 0x91] ''ON'' @ ''ON''"
      by code_simp
    from a have "toUpperCase rt (''Ca'' @ [CHR 0xC3, CHR 0xB1] @ ''on'')
        = toUpperCase rt (''CA'' @ [CHR 0xC3, CHR 0x91] @ ''ON'')"
      unfolding 1 2 by simp
    then show "matchesSubscription rt (ev\<lparr> county := ''Ca'' @ [CHR 0xC3, CHR 0xB1] @ ''on'' \<rparr>)
          \<lparr> sub_id = n, expo_push_token = tok,
            counties = [JStr (''CA'' @ [CHR 0xC3, CHR 0x91] @ ''ON'')],
            species_sub = [], waters = [] \<rparr>"
      by (simp add: matchesSubscription_def Let_def)
  qed
qed

theorem matchesSubscription_spec_witness:
  "matchesSubscription smallRuntime
     \<lparr> event_id = ''e1'', water_name = ''Blue Lake'', county = ''Wasatch'',
       species = ''Rainbow Trout'', quantity = Some 1200, avg_length = Some (10, ''5''),
       date_stocked = ''2026-03-04'', first_seen_at = ''2026-03-04T12:00:00.000Z'' \<rparr>
     \<lparr> sub_id = 1, expo_push_token = ''TOK1'', counties = [JStr '' wasatch''],
       species_sub = [JStr ''Brown Trout'', JStr ''rainbow trout ''], waters = [] \<rparr>
   \<and> matchesSubscription smallRuntime
     \<lparr> event_id = ''e1'', water_name = ''Blue Lake'',
       county = ''Ca'' @ [CHR 0xC3, CHR 0xB1] @ ''on'',
       species = ''Rainbow Trout'', quantity = Some 1200, avg_length = Some (10, ''5''),
       date_stocked = ''2026-03-04'', first_seen_at = ''2026-03-04T12:00:00.000Z'' \<rparr>
     \<lparr> sub_id = 1, expo_push_token = ''TOK1'',
       counties = [JStr (''CA'' @ [CHR 0xC3, CHR 0x91] @ ''ON'')],
       species_sub = [], waters = [] \<rparr>"
proof -
  let ?E = "\<lparr> event_id = ''e1'', water_name = ''Blue Lake'', county = ''Wasatch'',
       species = ''Rainbow Trout'', quantity = Some 1200, avg_length = Some (10, ''5''),
       date_stocked = ''2026-03-04'', first_seen_at = ''2026-03-04T12:00:00.000Z'' \<rparr>"
  let ?S = "\<lparr> sub_id = 1, expo_push_token = ''TOK1'', counties = [JStr '' wasatch''],
       species_sub = [JStr ''Brown Trout'', JStr ''rainbow trout ''], waters = [] \<rparr>"
  note inst = matchesSubscription_spec[of smallRuntime ?E ?S "''x''" 1 "''TOK1''"]
  have "(counties ?S = []
       \<or> trim (toUpperCase smallRuntime (county ?E))
           \<in> (\<lambda>x. trim (toUpperCase smallRuntime (stringOf smallRuntime x))) ` set (counties ?S))
    \<and> (species_sub ?S = []
       \<or> trim (toUpperCase smallRuntime (species ?E))
           \<in> (\<lambda>x. trim (toUpperCase smallRuntime (stringOf smallRuntime x)))
               ` set (species_sub ?S))
    \<and> (waters ?S = []
       \<or> trim (toUpperCase smallRuntime (water_name ?E))
           \<in> (\<lambda>x. trim (toUpperCase smallRuntime (stringOf smallRuntime x))) ` set (waters ?S))"
    by code_simp
  from inst[THEN conjunct1, THEN iffD2, OF this]
  have 1: "matchesSubscription smallRuntime ?E ?S" .
  have "upperRun smallRuntime ''Ca'' [CHR 0xC3, CHR 0xB1] ''on'' = [CHR 0xC3, CHR 0x91]
        \<and> upperRun smallRuntime ''CA'' [CHR 0xC3, CHR 0x91] ''ON'' = [CHR 0xC3, CHR 0x91]"
    by (simp add: smallRuntime_def)
  from inst[THEN conjunct2, THEN conjunct2, THEN conjunct2, THEN conjunct2, THEN conjunct2,
      THEN conjunct2, THEN mp, OF this]
  have 2: "matchesSubscription smallRuntime (?E\<lparr> county := ''Ca'' @ [CHR 0xC3, CHR 0xB1] @ ''on'' \<rparr>)
          \<lparr> sub_id = 1, expo_push_token = ''TOK1'',
            counties = [JStr (''CA'' @ [CHR 0xC3, CHR 0x91] @ ''ON'')],
            species_sub = [], waters = [] \<rparr>" .
  from 1 2 show ?thesis by simp
qed

section \<open>Properties of the message text\<close>

text \<open>
  Claim C10. In \<open>formatNotification\<close> a numeric field whose value is zero is rendered as if
  it were absent: an event with \<open>quantity = 0\<close> gets the notification of the same event
  without a quantity, and an event with \<open>avg_length = 0\<close> gets the notification of the same
  event without a length, whatever the other field holds. The body is fixed in each case:
  without a quantity the phrase is \<open>Fish stocked\<close>, and a quantity other than zero gives its
  digits in groups of three and \<open>fish\<close>; without a length there is no suffix, and a length
  other than zero gives the bullet, the length, an inch mark and \<open>avg\<close>. So the body of an
  event with quantity zero and length 10.5 reads \<open>Fish stocked\<close>, bullet, \<open>10.5" avg\<close>, and
  never \<open>0 fish\<close>. A length beyond the exact range that the runtime takes for false (it
  reads it as zero) is left out in the same way. Both zeros are values the tabular
  extractor stores, from the cells \<open>0\<close> and \<open>0.0\<close>.
\<close>

theorem formatNotification_zero:
  "(quantity ev = Some 0 \<longrightarrow>
      formatNotification rt ev = formatNotification rt (ev\<lparr> quantity := None \<rparr>))
   \<and> (avg_length ev = Some (0, []) \<longrightarrow>
      formatNotification rt ev = formatNotification rt (ev\<lparr> avg_length := None \<rparr>))
   \<and> (quantity ev = None \<and> avg_length ev = None \<longrightarrow>
      body (formatNotification rt ev) =
        water_name ev @ '' ('' @ county ev @ '') '' @ emDash @ '' Fish stocked '' @ emDash
        @ '' '' @ date_stocked ev)
   \<and> (quantity ev = None \<and> avg_length ev = Some l \<and> inRange l \<and> canonical l \<and> l \<noteq> (0, [])
      \<longrightarrow>
      body (formatNotification rt ev) =
        water_name ev @ '' ('' @ county ev @ '') '' @ emDash @ '' Fish stocked '' @ bullet
        @ '' '' @ decimalText l @ [CHR 0x22] @ '' avg '' @ emDash @ '' '' @ date_stocked ev)
   \<and> (quantity ev = Some q \<and> inRange (q, []) \<and> q \<noteq> 0 \<and> avg_length ev = None \<longrightarrow>
      body (formatNotification rt ev) =
        water_name ev @ '' ('' @ county ev @ '') '' @ emDash @ '' ''
        @ rev (group3 (rev (digitsOf q))) @ '' fish '' @ emDash @ '' '' @ date_stocked ev)
   \<and> (quantity ev = Some q \<and> inRange (q, []) \<and> q \<noteq> 0
        \<and> avg_length ev = Some l \<and> inRange l \<and> canonical l \<and> l \<noteq> (0, []) \<longrightarrow>
      body (formatNotification rt ev) =
        water_name ev @ '' ('' @ county ev @ '') '' @ emDash @ '' ''
        @ rev (group3 (rev (digitsOf q))) @ '' fish '' @ bullet
        @ '' '' @ decimalText l @ [CHR 0x22] @ '' avg '' @ emDash @ '' '' @ date_stocked ev)
   \<and> (avg_length ev = Some l \<and> \<not> inRange l \<and> \<not> truthyNum rt (numeralText False l) \<longrightarrow>
      formatNotification rt ev = formatNotification rt (ev\<lparr> avg_length := None \<rparr>))
   \<and> finiteQuantity rt (parseInt10 ''0'') = Some 0
   \<and> finiteLength rt (parseFloat ''0.0'') = Some (0, [])"
proof (intro conjI)
  have z: "inRange (0, [])" by (rule inRange_examples)
  show "quantity ev = Some 0 \<longrightarrow>
      formatNotification rt ev = formatNotification rt (ev\<lparr> quantity := None \<rparr>)"
    by (simp add: formatNotification_def Let_def truthy_def z)
  show "avg_length ev = Some (0, []) \<longrightarrow>
      formatNotification rt ev = formatNotification rt (ev\<lparr> avg_length := None \<rparr>)"
    by (simp add: formatNotification_def Let_def truthy_def z)
  show "quantity ev = None \<and> avg_length ev = None \<longrightarrow>
      body (formatNotification rt ev) =
        water_name ev @ '' ('' @ county ev @ '') '' @ emDash @ '' Fish stocked '' @ emDash
        @ '' '' @ date_stocked ev"
    by (simp add: formatNotification_def Let_def)
  show "quantity ev = None \<and> avg_length ev = Some l \<and> inRange l \<and> canonical l \<and> l \<noteq> (0, [])
      \<longrightarrow>
      body (formatNotification rt ev) =
        water_name ev @ '' ('' @ county ev @ '') '' @ emDash @ '' Fish stocked '' @ bullet
        @ '' '' @ decimalText l @ [CHR 0x22] @ '' avg '' @ emDash @ '' '' @ date_stocked ev"
    by (simp add: formatNotification_def Let_def truthy_def showNumber_def)
  show "quantity ev = Some q \<and> inRange (q, []) \<and> q \<noteq> 0 \<and> avg_length ev = None \<longrightarrow>
      body (formatNotification rt ev) =
        water_name ev @ '' ('' @ county ev @ '') '' @ emDash @ '' ''
        @ rev (group3 (rev (digitsOf q))) @ '' fish '' @ emDash @ '' '' @ date_stocked ev"
    by (simp add: formatNotification_def Let_def truthy_def toLocaleString_def)
  show "quantity ev = Some q \<and> inRange (q, []) \<and> q \<noteq> 0
        \<and> avg_length ev = Some l \<and> inRange l \<and> canonical l \<and> l \<noteq> (0, []) \<longrightarrow>
      body (formatNotification rt ev) =
        water_name ev @ '' ('' @ county ev @ '') '' @ emDash @ '' ''
        @ rev (group3 (rev (digitsOf q))) @ '' fish '' @ bullet
        @ '' '' @ decimalText l @ [CHR 0x22] @ '' avg '' @ emDash @ '' '' @ date_stocked ev"
    by (simp add: formatNotification_def Let_def truthy_def toLocaleString_def showNumber_def)
  show "avg_length ev = Some l \<and> \<not> inRange l \<and> \<not> truthyNum rt (numeralText False l) \<longrightarrow>
      formatNotification rt ev = formatNotification rt (ev\<lparr> avg_length := None \<rparr>)"
    by (simp add: formatNotification_def Let_def truthy_def)
  show "finiteQuantity rt (parseInt10 ''0'') = Some 0"
    by (simp add: finiteQuantity_def isFinite_def z parseInt10_def isDigit_def parseDigits_def
        digitVal_def)
  show "finiteLength rt (parseFloat ''0.0'') = Some (0, [])"
    by (simp add: finiteLength_def isFinite_def z parseFloat_def isDigit_def parseDigits_def
        digitVal_def)
qed

theorem formatNotification_zero_witness:
  "body (formatNotification smallRuntime
     \<lparr> event_id = ''e1'', water_name = ''Blue Lake'', county = ''WASATCH'', species = ''RAINBOW'',
       quantity = Some 0, avg_length = Some (10, ''5''), date_stocked = ''2026-03-04'',
       first_seen_at = ''2026-03-04T12:00:00.000Z'' \<rparr>)
   = ''Blue Lake (WASATCH) '' @ emDash @ '' Fish stocked '' @ bullet @ '' 10.5'' @ [CHR 0x22]
     @ '' avg '' @ emDash @ '' 2026-03-04''
   \<and> body (formatNotification smallRuntime
     \<lparr> event_id = ''e2'', water_name = ''Blue Lake'', county = ''WASATCH'', species = ''RAINBOW'',
       quantity = Some 1200, avg_length = Some (0, []), date_stocked = ''2026-03-04'',
       first_seen_at = ''2026-03-04T12:00:00.000Z'' \<rparr>)
   = ''Blue Lake (WASATCH) '' @ emDash @ '' 1,200 fish '' @ emDash @ '' 2026-03-04''
   \<and> body (formatNotification smallRuntime
     \<lparr> event_id = ''e3'', water_name = ''Blue Lake'', county = ''WASATCH'', species = ''RAINBOW'',
       quantity = Some 0, avg_length = Some (0, []), date_stocked = ''2026-03-04'',
       first_seen_at = ''2026-03-04T12:00:00.000Z'' \<rparr>)
   = ''Blue Lake (WASATCH) '' @ emDash @ '' Fish stocked '' @ emDash @ '' 2026-03-04''"
proof -
  let ?A = "\<lparr> event_id = ''e1'', water_name = ''Blue Lake'', county = ''WASATCH'',
       species = ''RAINBOW'', quantity = Some 0, avg_length = Some (10, ''5''),
       date_stocked = ''2026-03-04'', first_seen_at = ''2026-03-04T12:00:00.000Z'' \<rparr>"
  let ?A' = "\<lparr> event_id = ''e1'', water_name = ''Blue Lake'', county = ''WASATCH'',
       species = ''RAINBOW'', quantity = None, avg_length = Some (10, ''5''),
       date_stocked = ''2026-03-04'', first_seen_at = ''2026-03-04T12:00:00.000Z'' \<rparr>"
  let ?B = "\<lparr> event_id = ''e2'', water_name = ''Blue Lake'', county = ''WASATCH'',
       species = ''RAINBOW'', quantity = Some 1200, avg_length = Some (0, []),
       date_stocked = ''2026-03-04'', first_seen_at = ''2026-03-04T12:00:00.000Z'' \<rparr>"
  let ?B' = "\<lparr> event_id = ''e2'', water_name = ''Blue Lake'', county = ''WASATCH'',
       species = ''RAINBOW'', quantity = Some 1200, avg_length = None,
       date_stocked = ''2026-03-04'', first_seen_at = ''2026-03-04T12:00:00.000Z'' \<rparr>"
  let ?C = "\<lparr> event_id = ''e3'', water_name = ''Blue Lake'', county = ''WASATCH'',
       species = ''RAINBOW'', quantity = Some 0, avg_length = Some (0, []),
       date_stocked = ''2026-03-04'', first_seen_at = ''2026-03-04T12:00:00.000Z'' \<rparr>"
  let ?C' = "\<lparr> event_id = ''e3'', water_name = ''Blue Lake'', county = ''WASATCH'',
       species = ''RAINBOW'', quantity = None, avg_length = Some (0, []),
       date_stocked = ''2026-03-04'', first_seen_at = ''2026-03-04T12:00:00.000Z'' \<rparr>"
  let ?C'' = "\<lparr> event_id = ''e3'', water_name = ''Blue Lake'', county = ''WASATCH'',
       species = ''RAINBOW'', quantity = None, avg_length = None,
       date_stocked = ''2026-03-04'', first_seen_at = ''2026-03-04T12:00:00.000Z'' \<rparr>"
  note a = formatNotification_zero[of ?A smallRuntime "(10, ''5'')" 1200]
  note a' = formatNotification_zero[of ?A' smallRuntime "(10, ''5'')" 1200]
  note b = formatNotification_zero[of ?B smallRuntime "(10, ''5'')" 1200]
  note b' = formatNotification_zero[of ?B' smallRuntime "(10, ''5'')" 1200]
  note c = formatNotification_zero[of ?C smallRuntime "(10, ''5'')" 1200]
  note c' = formatNotification_zero[of ?C' smallRuntime "(10, ''5'')" 1200]
  note c'' = formatNotification_zero[of ?C'' smallRuntime "(10, ''5'')" 1200]
  have r: "inRange (10, ''5'')" "inRange (1200, [])" by (rule inRange_examples)+
  have k: "canonical (10, ''5'')" by (simp add: canonical_def isDigit_def)
  have t: "decimalText (10, ''5'') = ''10.5''" "rev (group3 (rev (digitsOf 1200))) = ''1,200''"
    by (simp_all add: decimalText_def digitsOf.simps digitChar_def)
  have "quantity ?A = Some 0" by simp
  from a[THEN conjunct1, THEN mp, OF this]
  have a1: "formatNotification smallRuntime ?A = formatNotification smallRuntime ?A'" by simp
  have "quantity ?A' = None \<and> avg_length ?A' = Some (10, ''5'') \<and> inRange (10, ''5'')
      \<and> canonical (10, ''5'') \<and> (10, ''5'') \<noteq> (0, [])"
    using r k by simp
  from a'[THEN conjunct2, THEN conjunct2, THEN conjunct2, THEN conjunct1, THEN mp, OF this]
  have a2: "body (formatNotification smallRuntime ?A') =
      ''Blue Lake (WASATCH) '' @ emDash @ '' Fish stocked '' @ bullet @ '' 10.5'' @ [CHR 0x22]
      @ '' avg '' @ emDash @ '' 2026-03-04''"
    unfolding t by simp
  have "avg_length ?B = Some (0, [])" by simp
  from b[THEN conjunct2, THEN conjunct1, THEN mp, OF this]
  have b1: "formatNotification smallRuntime ?B = formatNotification smallRuntime ?B'" by simp
  have "quantity ?B' = Some 1200 \<and> inRange (1200, []) \<and> (1200::nat) \<noteq> 0 \<and> avg_length ?B' = None"
    using r by simp
  from b'[THEN conjunct2, THEN conjunct2, THEN conjunct2, THEN conjunct2, THEN conjunct1,
      THEN mp, OF this]
  have b2: "body (formatNotification smallRuntime ?B') =
      ''Blue Lake (WASATCH) '' @ emDash @ '' 1,200 fish '' @ emDash @ '' 2026-03-04''"
    unfolding t by simp
  have "quantity ?C = Some 0" by simp
  from c[THEN conjunct1, THEN mp, OF this]
  have c1: "formatNotification smallRuntime ?C = formatNotification smallRuntime ?C'" by simp
  have "avg_length ?C' = Some (0, [])" by simp
  from c'[THEN conjunct2, THEN conjunct1, THEN mp, OF this]
  have c2: "formatNotification smallRuntime ?C' = formatNotification smallRuntime ?C''" by simp
  have "quantity ?C'' = None \<and> avg_length ?C'' = None" by simp
  from c''[THEN conjunct2, THEN conjunct2, THEN conjunct1, THEN mp, OF this]
  have c3: "body (formatNotification smallRuntime ?C'') =
      ''Blue Lake (WASATCH) '' @ emDash @ '' Fish stocked '' @ emDash @ '' 2026-03-04''"
    by simp
  show ?thesis unfolding a1 a2 b1 b2 c1 c2 c3 by simp
qed

section \<open>One poll cycle, end to end\<close>

lemma insertNewEvents_single:
  "insertNewEvents \<lparr> stock_events = [], subscriptions = subs \<rparr> [ev] =
     (\<lparr> insertedCount = 1, newOnes = [ev] \<rparr>, \<lparr> stock_events = [ev], subscriptions = subs \<rparr>)"
  by (simp add: insertNewEvents_def insert_run_def orderByFirstSeenDesc_def)

lemma blueLake_matches:
  "matchesSubscription rt
     \<lparr> event_id = i, water_name = ''Blue Lake'', county = ''Wasatch'', species = ''Rainbow Trout'',
       quantity = Some 1200, avg_length = Some (10, ''5''),
       date_stocked = ''2026-03-04'', first_seen_at = t \<rparr> tok1"
proof -
  have "trim (toUpperCase rt ''Wasatch'') = trim (toUpperCase rt ''WASATCH'')" by code_simp
  then show ?thesis by (simp add: matchesSubscription_def tok1_def Let_def)
qed

lemma blueLake_notification:
  "formatNotification rt
     \<lparr> event_id = i, water_name = ''Blue Lake'', county = ''Wasatch'', species = ''Rainbow Trout'',
       quantity = Some 1200, avg_length = Some (10, ''5''),
       date_stocked = ''2026-03-04'', first_seen_at = t \<rparr>
   = \<lparr> title = ''Stocked: Rainbow Trout'',
       body = ''Blue Lake (Wasatch) '' @ emDash @ '' 1,200 fish '' @ bullet @ '' 10.5''
              @ [CHR 0x22] @ '' avg '' @ emDash @ '' 2026-03-04'',
       data_eventId = i \<rparr>"
  by (simp add: formatNotification_def Let_def truthy_def showNumber_def inRange_examples
      toLocaleString_def decimalText_def digitsOf.simps digitChar_def)

lemma blueLake_finalMsgs:
  "finalMsgs rt
     [\<lparr> event_id = i, water_name = ''Blue Lake'', county = ''Wasatch'', species = ''Rainbow Trout'',
        quantity = Some 1200, avg_length = Some (10, ''5''),
        date_stocked = ''2026-03-04'', first_seen_at = t \<rparr>] [tok1]
   = [\<lparr> title = ''Stocked: Rainbow Trout'',
        body = ''Blue Lake (Wasatch) '' @ emDash @ '' 1,200 fish '' @ bullet @ '' 10.5''
               @ [CHR 0x22] @ '' avg '' @ emDash @ '' 2026-03-04'',
        data_eventId = i, to = ''TOK1'', sound = ''default'' \<rparr>]"
proof -
  have "expo_push_token tok1 = ''TOK1''" by (simp add: tok1_def)
  then show ?thesis
    unfolding finalMsgs_def messagesFor_def dedupMessages_def
    by (simp add: blueLake_matches blueLake_notification Let_def)
qed

text \<open>
  Claim C2, as the code has it. The page holds one table row with the cells \<open>Blue Lake\<close>,
  \<open>Wasatch\<close>, \<open>Rainbow Trout\<close>, \<open>1,200\<close>, \<open>10.5\<close>, \<open>3/4/2026\<close>; the store holds no event
  and the one subscription with token \<open>TOK1\<close>, counties \<open>["WASATCH"]\<close> and no other filter;
  \<open>POLL_URL\<close> is set, and the fetch of the page and the push gateway both answer with
  success. Then one call of
  \<open>runPollOnce\<close> returns \<open>parsed = 1\<close>, \<open>inserted = 1\<close>, \<open>matchedMessages = 1\<close> and
  \<open>pushed = 1\<close>, stores the event, and hands the gateway a single message, to \<open>TOK1\<close>,
  whose body is \<open>Blue Lake (Wasatch)\<close>, an em dash, \<open>1,200 fish\<close>, a bullet, \<open>10.5" avg\<close>,
  an em dash and \<open>2026-03-04\<close>: the county appears as the page writes it, since the
  tabular extractor does not upper-case it and only the matcher compares in upper case.
\<close>

theorem runPollOnce_blue_lake:
  "url \<noteq> [] \<and> ok (fetch url) \<and> text_res (fetch url) = blueLakeRow
   \<and> msg = \<lparr> title = ''Stocked: Rainbow Trout'',
              body = ''Blue Lake (Wasatch) '' @ emDash @ '' 1,200 fish '' @ bullet @ '' 10.5''
                     @ [CHR 0x22] @ '' avg '' @ emDash @ '' 2026-03-04'',
              data_eventId = sha1 ''Blue Lake|Wasatch|Rainbow Trout|1200|10.5|2026-03-04'',
              to = ''TOK1'', sound = ''default'' \<rparr>
   \<and> ok (expo [msg]) \<longrightarrow>
   runPollOnce sha1 rt clock (Some url) fetch expo \<lparr> stock_events = [], subscriptions = [tok1] \<rparr>
     = (Inr \<lparr> parsed = 1, inserted = 1, subscriptions_count = 1, matchedMessages = 1,
              pushed = 1, expoResponse = Some (text_res (expo [msg])) \<rparr>,
        \<lparr> stock_events =
            [\<lparr> event_id = sha1 ''Blue Lake|Wasatch|Rainbow Trout|1200|10.5|2026-03-04'',
               water_name = ''Blue Lake'', county = ''Wasatch'', species = ''Rainbow Trout'',
               quantity = Some 1200, avg_length = Some (10, ''5''),
               date_stocked = ''2026-03-04'', first_seen_at = clock 0 \<rparr>],
          subscriptions = [tok1] \<rparr>,
        [msg])"
proof
  assume a: "url \<noteq> [] \<and> ok (fetch url) \<and> text_res (fetch url) = blueLakeRow
   \<and> msg = \<lparr> title = ''Stocked: Rainbow Trout'',
              body = ''Blue Lake (Wasatch) '' @ emDash @ '' 1,200 fish '' @ bullet @ '' 10.5''
                     @ [CHR 0x22] @ '' avg '' @ emDash @ '' 2026-03-04'',
              data_eventId = sha1 ''Blue Lake|Wasatch|Rainbow Trout|1200|10.5|2026-03-04'',
              to = ''TOK1'', sound = ''default'' \<rparr>
   \<and> ok (expo [msg])"
  let ?ev = "\<lparr> event_id = sha1 ''Blue Lake|Wasatch|Rainbow Trout|1200|10.5|2026-03-04'',
               water_name = ''Blue Lake'', county = ''Wasatch'', species = ''Rainbow Trout'',
               quantity = Some 1200, avg_length = Some (10, ''5''),
               date_stocked = ''2026-03-04'', first_seen_at = clock 0 \<rparr>"
  from a have a0: "url \<noteq> []" and a1: "ok (fetch url)"
    and a2: "text_res (fetch url) = blueLakeRow" and a4: "ok (expo [msg])" by blast+
  from a have a3: "[\<lparr> title = ''Stocked: Rainbow Trout'',
              body = ''Blue Lake (Wasatch) '' @ emDash @ '' 1,200 fish '' @ bullet @ '' 10.5''
                     @ [CHR 0x22] @ '' avg '' @ emDash @ '' 2026-03-04'',
              data_eventId = sha1 ''Blue Lake|Wasatch|Rainbow Trout|1200|10.5|2026-03-04'',
              to = ''TOK1'', sound = ''default'' \<rparr>] = [msg]" by blast
  have p: "parseDwrFishStockingHtml sha1 rt clock (text_res (fetch url)) = [?ev]"
    unfolding a2 by (rule parseDwr_blueLakeRow)
  have f: "finalMsgs rt [?ev] [tok1] = [msg]"
    unfolding a3[symmetric] by (rule blueLake_finalMsgs)
  from a4 have s: "sendExpoPushMessages expo [msg] = Inr (1, Some (text_res (expo [msg])))"
    by (simp add: sendExpoPushMessages_def Let_def)
  from a0 a1 show "runPollOnce sha1 rt clock (Some url) fetch expo
       \<lparr> stock_events = [], subscriptions = [tok1] \<rparr>
     = (Inr \<lparr> parsed = 1, inserted = 1, subscriptions_count = 1, matchedMessages = 1,
              pushed = 1, expoResponse = Some (text_res (expo [msg])) \<rparr>,
        \<lparr> stock_events = [?ev], subscriptions = [tok1] \<rparr>,
        [msg])"
    unfolding runPollOnce_def
    by (simp add: Let_def p insertNewEvents_single listSubscriptions_def f s)
qed


theorem runPollOnce_blue_lake_witness:
  "runPollOnce plain smallRuntime noon (Some pollUrl) dwrPage expoOk
     \<lparr> stock_events = [], subscriptions = [tok1] \<rparr>
   = (Inr \<lparr> parsed = 1, inserted = 1, subscriptions_count = 1, matchedMessages = 1,
            pushed = 1, expoResponse = Some ''{}'' \<rparr>,
      \<lparr> stock_events =
          [\<lparr> event_id = plain ''Blue Lake|Wasatch|Rainbow Trout|1200|10.5|2026-03-04'',
             water_name = ''Blue Lake'', county = ''Wasatch'', species = ''Rainbow Trout'',
             quantity = Some 1200, avg_length = Some (10, ''5''),
             date_stocked = ''2026-03-04'', first_seen_at = noon 0 \<rparr>],
        subscriptions = [tok1] \<rparr>,
      [\<lparr> title = ''Stocked: Rainbow Trout'',
         body = ''Blue Lake (Wasatch) '' @ emDash @ '' 1,200 fish '' @ bullet @ '' 10.5''
                @ [CHR 0x22] @ '' avg '' @ emDash @ '' 2026-03-04'',
         data_eventId = plain ''Blue Lake|Wasatch|Rainbow Trout|1200|10.5|2026-03-04'',
         to = ''TOK1'', sound = ''default'' \<rparr>])"
proof -
  let ?msg = "\<lparr> title = ''Stocked: Rainbow Trout'',
         body = ''Blue Lake (Wasatch) '' @ emDash @ '' 1,200 fish '' @ bullet @ '' 10.5''
                @ [CHR 0x22] @ '' avg '' @ emDash @ '' 2026-03-04'',
         data_eventId = plain ''Blue Lake|Wasatch|Rainbow Trout|1200|10.5|2026-03-04'',
         to = ''TOK1'', sound = ''default'' \<rparr>"
  have h: "pollUrl \<noteq> [] \<and> ok (dwrPage pollUrl) \<and> text_res (dwrPage pollUrl) = blueLakeRow
      \<and> ?msg = ?msg \<and> ok (expoOk [?msg])"
    by (simp add: ok_def dwrPage_def expoOk_def pollUrl_def)
  have r: "text_res (expoOk [?msg]) = ''{}''" by (simp add: expoOk_def)
  from runPollOnce_blue_lake[of pollUrl dwrPage ?msg plain expoOk smallRuntime noon, THEN mp, OF h]
  show ?thesis unfolding r .
qed

text \<open>
  Claim C2 as stated fails in the text of the body: on this input the body of the one
  message does not contain the text with \<open>(WASATCH)\<close>.
\<close>

theorem poll_body_keeps_source_casing:
  "map body (snd (snd (runPollOnce plain smallRuntime noon (Some pollUrl) dwrPage expoOk
       \<lparr> stock_events = [], subscriptions = [tok1] \<rparr>)))
     = [''Blue Lake (Wasatch) '' @ emDash @ '' 1,200 fish '' @ bullet @ '' 10.5''
        @ [CHR 0x22] @ '' avg '' @ emDash @ '' 2026-03-04'']
   \<and> \<not> includes_str
        (''Blue Lake (Wasatch) '' @ emDash @ '' 1,200 fish '' @ bullet @ '' 10.5''
         @ [CHR 0x22] @ '' avg '' @ emDash @ '' 2026-03-04'')
        (''Blue Lake (WASATCH) '' @ emDash @ '' 1,200 fish '' @ bullet @ '' 10.5''
         @ [CHR 0x22] @ '' avg '' @ emDash @ '' 2026-03-04'')"
proof
  let ?ev = "\<lparr> event_id = plain ''Blue Lake|Wasatch|Rainbow Trout|1200|10.5|2026-03-04'',
               water_name = ''Blue Lake'', county = ''Wasatch'', species = ''Rainbow Trout'',
               quantity = Some 1200, avg_length = Some (10, ''5''),
               date_stocked = ''2026-03-04'', first_seen_at = noon 0 \<rparr>"
  have p: "parseDwrFishStockingHtml plain smallRuntime noon (text_res (dwrPage pollUrl)) = [?ev]"
    unfolding dwrPage_def by (simp add: parseDwr_blueLakeRow)
  have o: "ok (dwrPage pollUrl)" by (simp add: ok_def dwrPage_def)
  have o2: "ok (expoOk m)" for m by (simp add: ok_def expoOk_def)
  have u: "pollUrl \<noteq> []" by (simp add: pollUrl_def)
  show "map body (snd (snd (runPollOnce plain smallRuntime noon (Some pollUrl) dwrPage expoOk
       \<lparr> stock_events = [], subscriptions = [tok1] \<rparr>)))
     = [''Blue Lake (Wasatch) '' @ emDash @ '' 1,200 fish '' @ bullet @ '' 10.5''
        @ [CHR 0x22] @ '' avg '' @ emDash @ '' 2026-03-04'']"
    unfolding runPollOnce_def
    by (simp add: Let_def u o o2 p insertNewEvents_single listSubscriptions_def blueLake_finalMsgs
        sendExpoPushMessages_def)
  show "\<not> includes_str
        (''Blue Lake (Wasatch) '' @ emDash @ '' 1,200 fish '' @ bullet @ '' 10.5''
         @ [CHR 0x22] @ '' avg '' @ emDash @ '' 2026-03-04'')
        (''Blue Lake (WASATCH) '' @ emDash @ '' 1,200 fish '' @ bullet @ '' 10.5''
         @ [CHR 0x22] @ '' avg '' @ emDash @ '' 2026-03-04'')"
    by code_simp
qed

end
